theory Spec2Isabelle
  imports Complex_Main "HOL-Library.Log_Nat"
begin

section \<open>JavaScript numbers\<close>

text \<open>
  A JavaScript Number is an IEEE 754 binary64 value. Every finite double is a rational
  number, so a number is modelled as \<open>NaN\<close>, one of the two infinities, or \<open>Fin x\<close>
  with \<open>x\<close> the exact rational value. The two zeros are identified: the code under
  study never divides and never inspects the sign of a zero.

  \<open>double_of x\<close> is the double nearest to the rational \<open>x\<close> (round to nearest, ties to
  even, 53 significant bits, subnormals below \<open>2 powi (- 1022)\<close>, overflow to infinity
  from \<open>2 powi 1024\<close> on). Every arithmetic operation computes the exact result and rounds
  it with \<open>double_of\<close>, as IEEE 754 prescribes; a decimal literal of the source such as
  \<open>0.05\<close> is \<open>double_of (5 / 100)\<close>.
\<close>

datatype number = NaN | PosInf | NegInf | Fin rat

text \<open>\<open>ilog2 x\<close> is the integer \<open>e\<close> with \<open>2 powi e \<le> x < 2 powi (e + 1)\<close>, for \<open>0 < x\<close>.\<close>

definition ilog2 :: "rat \<Rightarrow> int" where
  "ilog2 x = (if 1 \<le> x then bitlen \<lfloor>x\<rfloor> - 1 else - bitlen (\<lceil>1 / x\<rceil> - 1))"

definition round_half_even :: "rat \<Rightarrow> int" where
  "round_half_even x =
     (let f = \<lfloor>x\<rfloor>; r = x - of_int f
      in if r < 1 / 2 then f
         else if 1 / 2 < r then f + 1
         else if even f then f else f + 1)"

definition double_of :: "rat \<Rightarrow> number" where
  "double_of x =
     (if x = 0 then Fin 0
      else let e = max (ilog2 \<bar>x\<bar>) (- 1022);
               q = 2 powi (e - 52);
               y = of_int (round_half_even (x / q)) * q
           in if 2 powi 1024 \<le> \<bar>y\<bar> then (if 0 < x then PosInf else NegInf) else Fin y)"

fun fneg :: "number \<Rightarrow> number" where
  "fneg NaN = NaN"
| "fneg PosInf = NegInf"
| "fneg NegInf = PosInf"
| "fneg (Fin x) = Fin (- x)"

text \<open>Addition \<open>a + b\<close>.\<close>

fun fadd :: "number \<Rightarrow> number \<Rightarrow> number" where
  "fadd NaN b = NaN"
| "fadd a NaN = NaN"
| "fadd PosInf NegInf = NaN"
| "fadd NegInf PosInf = NaN"
| "fadd PosInf b = PosInf"
| "fadd NegInf b = NegInf"
| "fadd (Fin x) PosInf = PosInf"
| "fadd (Fin x) NegInf = NegInf"
| "fadd (Fin x) (Fin y) = double_of (x + y)"

text \<open>Subtraction \<open>a - b\<close>.\<close>

definition fsub :: "number \<Rightarrow> number \<Rightarrow> number" where
  "fsub a b = fadd a (fneg b)"

text \<open>The sign of a number that is not \<open>NaN\<close>: \<open>- 1\<close>, \<open>0\<close> or \<open>1\<close>.\<close>

fun fsgn :: "number \<Rightarrow> int" where
  "fsgn NaN = 0"
| "fsgn PosInf = 1"
| "fsgn NegInf = - 1"
| "fsgn (Fin x) = (if x < 0 then - 1 else if x = 0 then 0 else 1)"

text \<open>Multiplication \<open>a * b\<close>: an infinity times zero is \<open>NaN\<close>.\<close>

fun fmul :: "number \<Rightarrow> number \<Rightarrow> number" where
  "fmul NaN b = NaN"
| "fmul a NaN = NaN"
| "fmul (Fin x) (Fin y) = double_of (x * y)"
| "fmul a b =
     (let s = fsgn a * fsgn b
      in if s = 0 then NaN else if 0 < s then PosInf else NegInf)"

text \<open>The comparison \<open>a < b\<close>: false as soon as one side is \<open>NaN\<close>.\<close>

fun flt :: "number \<Rightarrow> number \<Rightarrow> bool" where
  "flt NaN b = False"
| "flt a NaN = False"
| "flt PosInf b = False"
| "flt a NegInf = False"
| "flt NegInf b = True"
| "flt a PosInf = True"
| "flt (Fin x) (Fin y) = (x < y)"

text \<open>The comparisons \<open>a > b\<close>, \<open>a <= b\<close> and \<open>a >= b\<close>, and the strict equality \<open>a === b\<close>.\<close>

definition fgt :: "number \<Rightarrow> number \<Rightarrow> bool" where
  "fgt a b = flt b a"

definition feq :: "number \<Rightarrow> number \<Rightarrow> bool" where
  "feq a b = (a \<noteq> NaN \<and> a = b)"

definition fle :: "number \<Rightarrow> number \<Rightarrow> bool" where
  "fle a b = (flt a b \<or> feq a b)"

definition fge :: "number \<Rightarrow> number \<Rightarrow> bool" where
  "fge a b = fle b a"

definition isNaN :: "number \<Rightarrow> bool" where
  "isNaN a = (a = NaN)"

text \<open>\<open>a || b\<close> on numbers: \<open>a\<close> is falsy when it is \<open>NaN\<close> or zero.\<close>

definition num_or :: "number \<Rightarrow> number \<Rightarrow> number" where
  "num_or a b = (if a = NaN \<or> a = Fin 0 then b else a)"

text \<open>
  \<open>Math.round\<close>: the integer nearest to the argument, a tie going up; \<open>NaN\<close> and the
  infinities are returned as they are.
\<close>

fun Math_round :: "number \<Rightarrow> number" where
  "Math_round (Fin x) = Fin (of_int \<lfloor>x + 1 / 2\<rfloor>)"
| "Math_round a = a"

text \<open>A number is an integer when it is finite and its value is whole.\<close>

fun is_integer :: "number \<Rightarrow> bool" where
  "is_integer (Fin x) = (of_int \<lfloor>x\<rfloor> = x)"
| "is_integer a = False"

fun is_finite :: "number \<Rightarrow> bool" where
  "is_finite (Fin x) = True"
| "is_finite a = False"

section \<open>JavaScript strings\<close>

text \<open>
  A string is a list of characters, each standing for one UTF-16 code unit below 256
  (Latin-1 text, which covers every literal of the source).
\<close>

definition code :: "char \<Rightarrow> nat" where
  "code c = of_char c"

definition is_ws :: "char \<Rightarrow> bool" where
  "is_ws c = (code c \<in> {9, 10, 11, 12, 13, 32, 160})"

definition is_digit :: "char \<Rightarrow> bool" where
  "is_digit c = (48 \<le> code c \<and> code c \<le> 57)"

definition is_hex_digit :: "char \<Rightarrow> bool" where
  "is_hex_digit c =
     (is_digit c \<or> (65 \<le> code c \<and> code c \<le> 70) \<or> (97 \<le> code c \<and> code c \<le> 102))"

definition digit_val :: "char \<Rightarrow> nat" where
  "digit_val c =
     (if is_digit c then code c - 48
      else if 97 \<le> code c then code c - 87
      else code c - 55)"

text \<open>The value of a digit string in radix \<open>r\<close>.\<close>

definition digits_val :: "int \<Rightarrow> string \<Rightarrow> int" where
  "digits_val r ds = foldl (\<lambda>a c. r * a + int (digit_val c)) 0 ds"

definition trimStart :: "string \<Rightarrow> string" where
  "trimStart s = dropWhile is_ws s"

definition trim :: "string \<Rightarrow> string" where
  "trim s = rev (dropWhile is_ws (rev (dropWhile is_ws s)))"

definition upper_char :: "char \<Rightarrow> char" where
  "upper_char c =
     (case map_of (zip ''abcdefghijklmnopqrstuvwxyz'' ''ABCDEFGHIJKLMNOPQRSTUVWXYZ'') c of
        Some u \<Rightarrow> u
      | None \<Rightarrow> c)"

text \<open>
  \<open>toUpperCase\<close> on the ASCII letters; every other character is left as it is. The
  source compares the result with literals made of \<open>T\<close>, \<open>A\<close>, \<open>B\<close>, digits and \<open>+\<close>
  only, and JavaScript maps no other Latin-1 character to one of these.
\<close>

definition toUpperCase :: "string \<Rightarrow> string" where
  "toUpperCase s = map upper_char s"

definition startsWith :: "string \<Rightarrow> string \<Rightarrow> bool" where
  "startsWith s p = (take (length p) s = p)"

text \<open>A leading sign: the factor it stands for and the rest of the string.\<close>

definition scan_sign :: "string \<Rightarrow> int \<times> string" where
  "scan_sign s =
     (case s of
        [] \<Rightarrow> (1, s)
      | c # t \<Rightarrow> if c = CHR ''-'' then (- 1, t) else if c = CHR ''+'' then (1, t) else (1, s))"

text \<open>
  The exponent part \<open>e\<close>, optional sign, digits. When no digit follows, there is no
  exponent part and nothing is consumed.
\<close>

definition scan_exponent :: "string \<Rightarrow> int \<times> string" where
  "scan_exponent s =
     (case s of
        [] \<Rightarrow> (0, s)
      | c # t \<Rightarrow>
          if c = CHR ''e'' \<or> c = CHR ''E'' then
            (let (sg, u) = scan_sign t; ds = takeWhile is_digit u
             in if ds = [] then (0, s) else (sg * digits_val 10 ds, dropWhile is_digit u))
          else (0, s))"

text \<open>
  The longest prefix that is an unsigned decimal literal (digits, an optional fraction,
  an optional exponent; at least one digit before the exponent): its exact value and the
  rest of the string, or \<open>None\<close> when there is no such prefix.
\<close>

definition scan_decimal :: "string \<Rightarrow> (rat \<times> string) option" where
  "scan_decimal s =
     (let ip = takeWhile is_digit s;
          r1 = dropWhile is_digit s;
          (fp, r2) = (case r1 of
                        [] \<Rightarrow> ([], r1)
                      | c # t \<Rightarrow> if c = CHR ''.'' \<and> (ip \<noteq> [] \<or> takeWhile is_digit t \<noteq> [])
                                 then (takeWhile is_digit t, dropWhile is_digit t)
                                 else ([], r1))
      in if ip = [] \<and> fp = [] then None
         else let (ex, r3) = scan_exponent r2
              in Some (of_int (digits_val 10 (ip @ fp)) / 10 ^ length fp * 10 powi ex, r3))"

text \<open>
  \<open>parseFloat\<close>: leading white space is skipped, then the longest prefix that is a
  signed decimal literal or \<open>Infinity\<close> is converted; without such a prefix the result
  is \<open>NaN\<close>. The conversion is the correctly rounded one (the language allows an
  approximation beyond 20 significant digits).
\<close>

definition parseFloat :: "string \<Rightarrow> number" where
  "parseFloat s =
     (let (sg, u) = scan_sign (trimStart s)
      in if startsWith u ''Infinity'' then (if 0 < sg then PosInf else NegInf)
         else case scan_decimal u of
                None \<Rightarrow> NaN
              | Some (v, _) \<Rightarrow> double_of (of_int sg * v))"

text \<open>
  \<open>parseInt\<close> without a radix: leading white space and a sign are skipped, a prefix
  \<open>0x\<close> selects radix 16, and the longest prefix of digits is converted; without a
  digit the result is \<open>NaN\<close>.
\<close>

definition parseInt :: "string \<Rightarrow> number" where
  "parseInt s =
     (let (sg, u) = scan_sign (trimStart s);
          hex = (startsWith u ''0x'' \<or> startsWith u ''0X'');
          v = (if hex then drop 2 u else u);
          z = (if hex then takeWhile is_hex_digit v else takeWhile is_digit v)
      in if z = [] then NaN
         else double_of (of_int (sg * digits_val (if hex then 16 else 10) z)))"

text \<open>A binary, octal or hexadecimal integer literal that makes up the whole string.\<close>

definition scan_radix_literal :: "string \<Rightarrow> int option" where
  "scan_radix_literal s =
     (case s of
        z # x # ds \<Rightarrow>
          if z = CHR ''0'' \<and> ds \<noteq> [] then
            (if (x = CHR ''x'' \<or> x = CHR ''X'') \<and> list_all is_hex_digit ds
               then Some (digits_val 16 ds)
             else if (x = CHR ''o'' \<or> x = CHR ''O'') \<and> list_all (\<lambda>c. is_digit c \<and> code c \<le> 55) ds
               then Some (digits_val 8 ds)
             else if (x = CHR ''b'' \<or> x = CHR ''B'') \<and> list_all (\<lambda>c. code c = 48 \<or> code c = 49) ds
               then Some (digits_val 2 ds)
             else None)
          else None
      | _ \<Rightarrow> None)"

text \<open>
  \<open>Number(s)\<close> on a string: white space is trimmed at both ends; the empty string is
  \<open>0\<close>; the whole rest must be a numeric literal, otherwise the result is \<open>NaN\<close>.
\<close>

definition Number :: "string \<Rightarrow> number" where
  "Number s =
     (let t = trim s
      in if t = [] then Fin 0
         else case scan_radix_literal t of
                Some n \<Rightarrow> double_of (of_int n)
              | None \<Rightarrow>
                  (let (sg, u) = scan_sign t
                   in if u = ''Infinity'' then (if 0 < sg then PosInf else NegInf)
                      else case scan_decimal u of
                             Some (v, []) \<Rightarrow> double_of (of_int sg * v)
                           | _ \<Rightarrow> NaN))"

section \<open>The form data and the wizard state\<close>

text \<open>
  The object held by \<open>formData\<close> in \<open>App\<close>. The field \<open>floor\<close> of the source is
  \<open>floor'\<close> here. At run time every option field is a string; the TypeScript unions
  (\<open>'' | 'Moradia' | 'Apartamento'\<close>, the yes and no of the amenities, ...) only narrow them.
\<close>

record formData =
  propertyType :: string
  livingArea :: string
  plotArea :: string
  floor' :: string
  propertyConfig :: string
  yearBuilt :: string
  conservationState :: string
  energyClass :: string
  elevator :: string
  balcony :: string
  garage :: string
  pool :: string
  garden :: string
  streetAddress :: string
  district :: string
  municipality :: string
  parish :: string
  phone :: string
  acceptsContact :: bool
  wantsProfessionalEvaluation :: bool

text \<open>The initial value of \<open>formData\<close>.\<close>

definition initialFormData :: formData where
  "initialFormData =
     \<lparr>propertyType = [], livingArea = [], plotArea = [], floor' = [], propertyConfig = [],
      yearBuilt = [], conservationState = [], energyClass = [], elevator = [], balcony = [],
      garage = [], pool = [], garden = [], streetAddress = [], district = [],
      municipality = [], parish = [], phone = [], acceptsContact = False,
      wantsProfessionalEvaluation = False\<rparr>"

definition handleDistrictChange :: "string \<Rightarrow> formData \<Rightarrow> formData" where
  "handleDistrictChange v prev = prev\<lparr>district := v, municipality := [], parish := []\<rparr>"

definition handleMunicipalityChange :: "string \<Rightarrow> formData \<Rightarrow> formData" where
  "handleMunicipalityChange v prev = prev\<lparr>municipality := v, parish := []\<rparr>"

section \<open>The step sequence\<close>

text \<open>
  \<open>steps\<close> of \<open>App\<close>. The calendar year \<open>new Date().getFullYear()\<close> is the parameter
  \<open>currentYear\<close>.
\<close>

definition steps :: "int \<Rightarrow> formData \<Rightarrow> string list" where
  "steps currentYear fd =
     (let yearNum = parseInt (yearBuilt fd)
      in [''Tipo'', ''AreaUtil'']
         @ (if propertyType fd = ''Moradia'' then [''AreaTotal'']
            else if propertyType fd = ''Apartamento'' then [''Floor'']
            else [])
         @ [''Tipologia'', ''Ano'']
         @ (if \<not> isNaN yearNum \<and> fgt (fsub (Fin (of_int currentYear)) yearNum) (Fin 15)
            then [''Conservacao''] else [])
         @ [''ClasseEnergetica'']
         @ (if propertyType fd = ''Moradia'' then [''Piscina'', ''Jardim'']
            else if propertyType fd = ''Apartamento'' then [''Elevador'', ''Varanda'', ''Garagem'']
            else [])
         @ [''Localizacao'', ''Contacto'', ''Resultado''])"

text \<open>
  The index \<open>currentStep\<close> is an integer. \<open>steps[currentStep]\<close> is \<open>undefined\<close> outside
  the array: \<open>None\<close> here.
\<close>

definition step_at :: "string list \<Rightarrow> int \<Rightarrow> string option" where
  "step_at xs i = (if 0 \<le> i \<and> i < int (length xs) then Some (xs ! nat i) else None)"

text \<open>The updater functions of \<open>goToNextStep\<close> and \<open>goToPreviousStep\<close>.\<close>

definition goToNextStep :: "int \<Rightarrow> formData \<Rightarrow> int \<Rightarrow> int" where
  "goToNextStep currentYear fd s = min (s + 1) (int (length (steps currentYear fd)) - 1)"

definition goToPreviousStep :: "int \<Rightarrow> int" where
  "goToPreviousStep s = max (s - 1) 0"

text \<open>\<open>phone.replace(/\D/g, '')\<close>: the decimal digits of the string.\<close>

definition strip_non_digits :: "string \<Rightarrow> string" where
  "strip_non_digits s = filter is_digit s"

text \<open>\<open>isNextDisabled\<close>: the \<open>switch\<close> on the name of the current step.\<close>

definition isNextDisabled :: "int \<Rightarrow> formData \<Rightarrow> int \<Rightarrow> bool" where
  "isNextDisabled currentYear fd currentStep =
     (let stepName = step_at (steps currentYear fd) currentStep
      in if stepName = Some ''Tipo'' then propertyType fd = []
         else if stepName = Some ''AreaUtil'' then
           trim (livingArea fd) = [] \<or> fle (Number (livingArea fd)) (Fin 0)
         else if stepName = Some ''AreaTotal'' then
           trim (plotArea fd) = [] \<or> fle (Number (plotArea fd)) (Fin 0)
           \<or> fle (Number (plotArea fd)) (Number (livingArea fd))
         else if stepName = Some ''Floor'' then
           trim (floor' fd) = [] \<or> flt (Number (floor' fd)) (Fin 0)
         else if stepName = Some ''Tipologia'' then propertyConfig fd = []
         else if stepName = Some ''Ano'' then
           trim (yearBuilt fd) = [] \<or> isNaN (Number (yearBuilt fd))
           \<or> flt (Number (yearBuilt fd)) (Fin 1900) \<or> fgt (Number (yearBuilt fd)) (Fin 2025)
         else if stepName = Some ''Conservacao'' then conservationState fd = []
         else if stepName = Some ''ClasseEnergetica'' then energyClass fd = []
         else if stepName = Some ''Piscina'' then pool fd = []
         else if stepName = Some ''Jardim'' then garden fd = []
         else if stepName = Some ''Elevador'' then elevator fd = []
         else if stepName = Some ''Varanda'' then balcony fd = []
         else if stepName = Some ''Garagem'' then garage fd = []
         else if stepName = Some ''Localizacao'' then
           district fd = [] \<or> municipality fd = [] \<or> parish fd = []
         else if stepName = Some ''Contacto'' then length (strip_non_digits (phone fd)) \<noteq> 9
         else False)"

section \<open>The valuation\<close>

text \<open>
  \<open>getPricePerSquareMeter\<close>. The table \<open>pricePerMunicipality\<close> is built from a JSON
  file and is a parameter: a map from the name of a municipality to its price. A name
  without an entry gets the default 1500.
\<close>

definition getPricePerSquareMeter :: "(string \<rightharpoonup> number) \<Rightarrow> string \<Rightarrow> number" where
  "getPricePerSquareMeter pricePerMunicipality m =
     (case pricePerMunicipality m of None \<Rightarrow> Fin 1500 | Some v \<Rightarrow> v)"

definition getTipologyAdj :: "string \<Rightarrow> number" where
  "getTipologyAdj tip =
     (let t = toUpperCase tip
      in if t = ''T0'' then double_of (- (15 / 100))
         else if t = ''T1'' then double_of (- (10 / 100))
         else if t = ''T2'' then double_of (- (5 / 100))
         else if t = ''T3'' then Fin 0
         else if startsWith t ''T4'' then double_of (10 / 100)
         else Fin 0)"

definition getTipologyFactor :: "string \<Rightarrow> number" where
  "getTipologyFactor tip =
     (let t = toUpperCase tip
      in if t = ''T0'' then double_of (85 / 100)
         else if t = ''T1'' then double_of (90 / 100)
         else if t = ''T2'' then double_of (95 / 100)
         else if t = ''T3'' then Fin 1
         else if startsWith t ''T4'' then double_of (110 / 100)
         else Fin 1)"

definition getAgeAdj :: "int \<Rightarrow> string \<Rightarrow> number" where
  "getAgeAdj currentYear ano =
     (let year = parseInt ano
      in if isNaN year then Fin 0
         else let idade = fsub (Fin (of_int currentYear)) year
              in if fgt idade (Fin 20) then double_of (- (10 / 100))
                 else if fgt idade (Fin 15) then double_of (- (5 / 100))
                 else if fgt idade (Fin 10) then Fin 0
                 else double_of (15 / 100))"

definition getAgeFactor :: "int \<Rightarrow> string \<Rightarrow> number" where
  "getAgeFactor currentYear ano =
     (let year = parseInt ano
      in if isNaN year then Fin 1
         else let idade = fsub (Fin (of_int currentYear)) year
              in if fgt idade (Fin 20) then double_of (90 / 100)
                 else if fgt idade (Fin 15) then double_of (95 / 100)
                 else if fgt idade (Fin 10) then Fin 1
                 else double_of (115 / 100))"

definition getStateAdj :: "string \<Rightarrow> number" where
  "getStateAdj state =
     (if state = ''good'' then double_of (10 / 100)
      else if state = ''needs_renovation'' then double_of (- (5 / 100))
      else Fin 0)"

definition getStateFactor :: "string \<Rightarrow> number" where
  "getStateFactor state =
     (if state = ''good'' then double_of (110 / 100)
      else if state = ''needs_renovation'' then double_of (95 / 100)
      else Fin 1)"

definition getClassAdj :: "string \<Rightarrow> number" where
  "getClassAdj cl =
     (let c = toUpperCase cl
      in if c = ''A+'' then double_of (5 / 100)
         else if c = ''A'' \<or> c = ''B'' then double_of (2 / 100)
         else Fin 0)"

definition getClassFactor :: "string \<Rightarrow> number" where
  "getClassFactor cl =
     (let c = toUpperCase cl
      in if c = ''A+'' then double_of (105 / 100)
         else if c = ''A'' \<or> c = ''B'' then double_of (102 / 100)
         else Fin 1)"

definition getFloorAdj :: "string \<Rightarrow> string \<Rightarrow> number" where
  "getFloorAdj floorStr elev =
     (let fl = parseInt floorStr
      in if isNaN fl then Fin 0
         else if feq fl (Fin 0) then double_of (- (5 / 100))
         else if feq fl (Fin 1) \<or> feq fl (Fin 2) then Fin 0
         else if fge fl (Fin 3) then
           (if elev = ''Sim'' then double_of (3 / 100) else double_of (- (10 / 100)))
         else Fin 0)"

definition getElevatorAdj :: "string \<Rightarrow> string \<Rightarrow> number" where
  "getElevatorAdj floorStr elev =
     (let fl = parseInt floorStr
      in if isNaN fl then Fin 0
         else if fge fl (Fin 2) \<and> elev = ''Sim'' then double_of (5 / 100) else Fin 0)"

definition getGarageAdj :: "string \<Rightarrow> number" where
  "getGarageAdj gar = (if gar = ''Sim'' then double_of (5 / 100) else Fin 0)"

definition getBalconyAdj :: "string \<Rightarrow> number" where
  "getBalconyAdj bal = (if bal = ''Sim'' then double_of (2 / 100) else Fin 0)"

definition getPoolFactor :: "string \<Rightarrow> number" where
  "getPoolFactor p = (if p = ''Sim'' then double_of (103 / 100) else Fin 1)"

definition getGardenFactor :: "string \<Rightarrow> number" where
  "getGardenFactor g = (if g = ''Sim'' then double_of (1005 / 1000) else Fin 1)"

text \<open>The constants \<open>areaUtil\<close> and \<open>areaTotal\<close> of \<open>calculatePropertyValue\<close>.\<close>

definition areaUtil :: "formData \<Rightarrow> number" where
  "areaUtil fd = num_or (parseFloat (livingArea fd)) (Fin 0)"

definition areaTotal :: "formData \<Rightarrow> number" where
  "areaTotal fd =
     num_or (parseFloat (if plotArea fd = [] then livingArea fd else plotArea fd)) (Fin 0)"

text \<open>The constant \<open>totalAdj\<close> of the apartment branch: the sum, from left to right.\<close>

definition totalAdj :: "int \<Rightarrow> formData \<Rightarrow> number" where
  "totalAdj currentYear fd =
     (let tipAdj = getTipologyAdj (propertyConfig fd);
          ageAdj = getAgeAdj currentYear (yearBuilt fd);
          stateAdj = getStateAdj (conservationState fd);
          classAdj = getClassAdj (energyClass fd);
          floorAdj = getFloorAdj (floor' fd) (elevator fd);
          elevAdj = getElevatorAdj (floor' fd) (elevator fd);
          garageAdj = getGarageAdj (garage fd);
          balconyAdj = getBalconyAdj (balcony fd)
      in fadd (fadd (fadd (fadd (fadd (fadd (fadd tipAdj ageAdj) stateAdj) classAdj) floorAdj)
                 elevAdj) garageAdj) balconyAdj)"

text \<open>The constant \<open>baseArea\<close> and the variable \<open>factors\<close> of the house branch.\<close>

definition baseArea :: "formData \<Rightarrow> number" where
  "baseArea fd =
     fadd (fmul (areaUtil fd) (double_of (75 / 100)))
          (fmul (fsub (areaTotal fd) (areaUtil fd)) (double_of (35 / 100)))"

definition factors :: "int \<Rightarrow> formData \<Rightarrow> number" where
  "factors currentYear fd =
     (let f0 = Fin 1;
          f1 = fmul f0 (getTipologyFactor (propertyConfig fd));
          f2 = fmul f1 (getAgeFactor currentYear (yearBuilt fd));
          f3 = fmul f2 (getStateFactor (conservationState fd));
          f4 = fmul f3 (getPoolFactor (pool fd));
          f5 = fmul f4 (getGardenFactor (garden fd))
      in fmul f5 (getClassFactor (energyClass fd)))"

definition calculatePropertyValue :: "(string \<rightharpoonup> number) \<Rightarrow> int \<Rightarrow> formData \<Rightarrow> number" where
  "calculatePropertyValue pricePerMunicipality currentYear fd =
     (let precoM2 = getPricePerSquareMeter pricePerMunicipality (municipality fd)
      in if propertyType fd = ''Apartamento'' then
           (let base = fmul (fmul (areaUtil fd) (double_of (125 / 100))) precoM2;
                price = fmul base (fadd (Fin 1) (totalAdj currentYear fd))
            in Math_round price)
         else if propertyType fd = ''Moradia'' then
           (let price = fmul (fmul (baseArea fd) precoM2) (factors currentYear fd)
            in Math_round price)
         else Fin 0)"

section \<open>The events of the wizard\<close>

text \<open>
  The value that an \<open>input\<close> of type \<open>number\<close> delivers to its \<open>onChange\<close> handler: the
  empty string, or a valid floating-point number, that is an optional minus sign, then
  digits, a fraction (a point and digits) or both, then optionally an exponent (\<open>e\<close>, an
  optional sign, digits). The browser replaces any other content by the empty string.
\<close>

definition number_input_value :: "string \<Rightarrow> bool" where
  "number_input_value s =
     (s = [] \<or>
      (let u = (case s of [] \<Rightarrow> [] | c # t \<Rightarrow> if c = CHR ''-'' then t else s);
           ip = takeWhile is_digit u;
           r1 = dropWhile is_digit u;
           fr = (case r1 of [] \<Rightarrow> False | c # t \<Rightarrow> c = CHR ''.'' \<and> takeWhile is_digit t \<noteq> []);
           r2 = (if fr then dropWhile is_digit (tl r1) else r1)
       in (fr \<or> ip \<noteq> []) \<and>
          (case r2 of
             [] \<Rightarrow> True
           | c # t \<Rightarrow> (c = CHR ''e'' \<or> c = CHR ''E'') \<and>
                      (let w = snd (scan_sign t) in w \<noteq> [] \<and> list_all is_digit w))))"

text \<open>
  The option value for no, the negative of \<open>Sim\<close>: the letters \<open>N\<close> and \<open>o\<close> around
  the code unit \<open>0xE3\<close>, the letter a with a tilde.
\<close>

definition Nao :: string where
  "Nao = [CHR ''N'', CHR 0xE3, CHR ''o'']"

text \<open>
  \<open>renderStep\<close>: the controls shown for the step of the given name, as the updates of
  the form data that one event of these controls can make. An option card delivers its
  own value, an input of type \<open>number\<close> a number-input value, the other inputs and the
  selects any string; the selects of the municipality and of the parish are disabled
  while the level above is empty.
\<close>

inductive renderStep :: "string \<Rightarrow> formData \<Rightarrow> formData \<Rightarrow> bool" where
  Tipo: "v = ''Moradia'' \<or> v = ''Apartamento'' \<Longrightarrow>
      renderStep ''Tipo'' prev (prev\<lparr>propertyType := v\<rparr>)"
| AreaUtil: "number_input_value v \<Longrightarrow> renderStep ''AreaUtil'' prev (prev\<lparr>livingArea := v\<rparr>)"
| AreaTotal: "number_input_value v \<Longrightarrow> renderStep ''AreaTotal'' prev (prev\<lparr>plotArea := v\<rparr>)"
| Floor: "number_input_value v \<Longrightarrow> renderStep ''Floor'' prev (prev\<lparr>floor' := v\<rparr>)"
| Tipologia: "v \<in> set [''T0'', ''T1'', ''T2'', ''T3'', ''T4+''] \<Longrightarrow>
      renderStep ''Tipologia'' prev (prev\<lparr>propertyConfig := v\<rparr>)"
| Ano: "number_input_value v \<Longrightarrow> renderStep ''Ano'' prev (prev\<lparr>yearBuilt := v\<rparr>)"
| Conservacao: "v = ''good'' \<or> v = ''needs_renovation'' \<Longrightarrow>
      renderStep ''Conservacao'' prev (prev\<lparr>conservationState := v\<rparr>)"
| ClasseEnergetica: "v \<in> set [''A+'', ''A'', ''B'', ''C'', ''D'', ''E''] \<Longrightarrow>
      renderStep ''ClasseEnergetica'' prev (prev\<lparr>energyClass := v\<rparr>)"
| Piscina: "v = ''Sim'' \<or> v = Nao \<Longrightarrow> renderStep ''Piscina'' prev (prev\<lparr>pool := v\<rparr>)"
| Jardim: "v = ''Sim'' \<or> v = Nao \<Longrightarrow> renderStep ''Jardim'' prev (prev\<lparr>garden := v\<rparr>)"
| Elevador: "v = ''Sim'' \<or> v = Nao \<Longrightarrow> renderStep ''Elevador'' prev (prev\<lparr>elevator := v\<rparr>)"
| Varanda: "v = ''Sim'' \<or> v = Nao \<Longrightarrow> renderStep ''Varanda'' prev (prev\<lparr>balcony := v\<rparr>)"
| Garagem: "v = ''Sim'' \<or> v = Nao \<Longrightarrow> renderStep ''Garagem'' prev (prev\<lparr>garage := v\<rparr>)"
| Morada: "renderStep ''Localizacao'' prev (prev\<lparr>streetAddress := v\<rparr>)"
| Distrito: "renderStep ''Localizacao'' prev (handleDistrictChange v prev)"
| Municipio: "district prev \<noteq> [] \<Longrightarrow>
      renderStep ''Localizacao'' prev (handleMunicipalityChange v prev)"
| Freguesia: "municipality prev \<noteq> [] \<Longrightarrow>
      renderStep ''Localizacao'' prev (prev\<lparr>parish := v\<rparr>)"
| Telefone: "renderStep ''Contacto'' prev (prev\<lparr>phone := v\<rparr>)"
| Propostas: "renderStep ''Contacto'' prev (prev\<lparr>acceptsContact := b\<rparr>)"
| Avaliacao: "renderStep ''Contacto'' prev (prev\<lparr>wantsProfessionalEvaluation := b\<rparr>)"

text \<open>The state of \<open>App\<close>: the three \<open>useState\<close> cells.\<close>

record app =
  currentStep :: int
  showWelcome :: bool
  formData :: formData

text \<open>
  The states of \<open>App\<close> that can be reached from its initial state, one event at a
  time, in the calendar year \<open>currentYear\<close>:
  \<^item> the button of the welcome page hides it and sets the index to 0;
  \<^item> an event of the controls of the current step updates the form data;
  \<^item> the main button, shown on every step but the result and enabled when
    \<open>isNextDisabled\<close> is false, advances (on the contact step through \<open>handleSubmit\<close>);
  \<^item> the back arrow, shown from index 1 on and not on the result, retreats;
  \<^item> the button of the result step empties the form and sets the index to 0.
\<close>

inductive reach :: "int \<Rightarrow> app \<Rightarrow> bool" for currentYear :: int where
  initial: "reach currentYear \<lparr>currentStep = 0, showWelcome = True, formData = initialFormData\<rparr>"
| start: "reach currentYear st \<Longrightarrow> showWelcome st \<Longrightarrow>
      reach currentYear (st\<lparr>showWelcome := False, currentStep := 0\<rparr>)"
| change: "reach currentYear st \<Longrightarrow> \<not> showWelcome st \<Longrightarrow>
      step_at (steps currentYear (formData st)) (currentStep st) = Some name \<Longrightarrow>
      renderStep name (formData st) fd' \<Longrightarrow>
      reach currentYear (st\<lparr>formData := fd'\<rparr>)"
| advance: "reach currentYear st \<Longrightarrow> \<not> showWelcome st \<Longrightarrow>
      step_at (steps currentYear (formData st)) (currentStep st) \<noteq> Some ''Resultado'' \<Longrightarrow>
      \<not> isNextDisabled currentYear (formData st) (currentStep st) \<Longrightarrow>
      reach currentYear
        (st\<lparr>currentStep := goToNextStep currentYear (formData st) (currentStep st)\<rparr>)"
| retreat: "reach currentYear st \<Longrightarrow> \<not> showWelcome st \<Longrightarrow> 0 < currentStep st \<Longrightarrow>
      step_at (steps currentYear (formData st)) (currentStep st) \<noteq> Some ''Resultado'' \<Longrightarrow>
      reach currentYear (st\<lparr>currentStep := goToPreviousStep (currentStep st)\<rparr>)"
| restart: "reach currentYear st \<Longrightarrow> \<not> showWelcome st \<Longrightarrow>
      step_at (steps currentYear (formData st)) (currentStep st) = Some ''Resultado'' \<Longrightarrow>
      reach currentYear (st\<lparr>formData := initialFormData, currentStep := 0\<rparr>)"

section \<open>Answer sets used as examples\<close>

text \<open>
  An apartment of 80 square metres on floor 5 with elevator and garage, layout T2, built
  in 2010, in good condition, energy class B.
\<close>

definition fd_apartment :: formData where
  "fd_apartment =
     initialFormData\<lparr>propertyType := ''Apartamento'', livingArea := ''80'', floor' := ''5'',
       propertyConfig := ''T2'', yearBuilt := ''2010'', conservationState := ''good'',
       energyClass := ''B'', elevator := ''Sim'', balcony := Nao, garage := ''Sim'',
       municipality := ''Porto''\<rparr>"

text \<open>
  A house of 150 square metres on a plot of 400, layout T4+, built in 1995, needing
  renovation, with a pool and no garden, energy class D.
\<close>

definition fd_house :: formData where
  "fd_house =
     initialFormData\<lparr>propertyType := ''Moradia'', livingArea := ''150'', plotArea := ''400'',
       propertyConfig := ''T4+'', yearBuilt := ''1995'',
       conservationState := ''needs_renovation'', energyClass := ''D'', pool := ''Sim'',
       garden := Nao, municipality := ''Porto''\<rparr>"

text \<open>Price tables with one entry.\<close>

definition prices_2000 :: "string \<rightharpoonup> number" where
  "prices_2000 = [''Porto'' \<mapsto> Fin 2000]"

definition prices_1800 :: "string \<rightharpoonup> number" where
  "prices_1800 = [''Porto'' \<mapsto> Fin 1800]"

text \<open>
  A plain apartment (layout T3, floor 1, nothing else chosen) of 100 square metres, built
  in the given year.
\<close>

definition fd_plain :: "string \<Rightarrow> formData" where
  "fd_plain y =
     initialFormData\<lparr>propertyType := ''Apartamento'', livingArea := ''100'', floor' := ''1'',
       propertyConfig := ''T3'', yearBuilt := y\<rparr>"

text \<open>The year field while the user has typed two digits only.\<close>

definition fd_year19 :: formData where
  "fd_year19 = initialFormData\<lparr>yearBuilt := ''19''\<rparr>"

text \<open>An apartment with a living area at the upper end of the double range.\<close>

definition fd_huge :: formData where
  "fd_huge = initialFormData\<lparr>propertyType := ''Apartamento'', livingArea := ''1e308''\<rparr>"

text \<open>
  The state of the wizard after the start button, the choice of a house, \<open>Next\<close>, a
  living area of 150, \<open>Next\<close>, and a plot area of 400: it shows the total-area step.
\<close>

definition st_total_area :: app where
  "st_total_area =
     \<lparr>currentStep = 2, showWelcome = False,
      formData = initialFormData\<lparr>propertyType := ''Moradia'', livingArea := ''150'',
        plotArea := ''400''\<rparr>\<rparr>"

section \<open>Rounding to a double\<close>

lemma powi2_less_iff: "(2::rat) powi a < 2 powi b \<longleftrightarrow> a < b"
  by (metis linorder_not_less power_int_increasing power_int_strict_increasing one_less_numeral_iff semiring_norm(76) order_less_imp_le one_le_numeral)

lemma powi2_le_iff: "(2::rat) powi a \<le> 2 powi b \<longleftrightarrow> a \<le> b"
  by (metis linorder_not_less powi2_less_iff)

lemma ilog2_bounds:
  assumes "0 < x"
  shows "2 powi (ilog2 x) \<le> x \<and> x < 2 powi (ilog2 x + 1)"
proof (cases "1 \<le> x")
  case True
  define n where "n = \<lfloor>x\<rfloor>"
  have n1: "1 \<le> n" using True by (simp add: n_def)
  then have n0: "0 < n" by simp
  have b1: "1 \<le> bitlen n" using n1 by (simp add: bitlen_alt_def)
  from bitlen_bounds[OF n0]
  have lo: "2 ^ nat (bitlen n - 1) \<le> n" and hi: "n < 2 ^ nat (bitlen n)" by auto
  have e: "ilog2 x = bitlen n - 1" using True by (simp add: ilog2_def n_def)
  have "(2::rat) powi (bitlen n - 1) = 2 ^ nat (bitlen n - 1)"
    using b1 by (simp add: power_int_def)
  also have "\<dots> = of_int (2 ^ nat (bitlen n - 1))" by simp
  also have "\<dots> \<le> of_int n" using lo by (simp only: of_int_le_iff)
  also have "\<dots> \<le> x" by (simp add: n_def)
  finally have A: "2 powi (ilog2 x) \<le> x" by (simp add: e)
  have "n + 1 \<le> 2 ^ nat (bitlen n)" using hi by simp
  then have "(of_int (n + 1) :: rat) \<le> of_int (2 ^ nat (bitlen n))" by (simp only: of_int_le_iff)
  moreover have "x < of_int (n + 1)" using floor_correct[of x] by (simp add: n_def)
  ultimately have "x < of_int (2 ^ nat (bitlen n))" by linarith
  also have "\<dots> = 2 powi (bitlen n)" using b1 by (simp add: power_int_def)
  finally have B: "x < 2 powi (ilog2 x + 1)" by (simp add: e)
  from A B show ?thesis by simp
next
  case False
  then have x1: "x < 1" by simp
  define z where "z = 1 / x"
  define n where "n = \<lceil>z\<rceil> - 1"
  have z1: "1 < z" using assms x1 by (simp add: z_def)
  have n1: "1 \<le> n" using z1 by (simp add: n_def)
  then have n0: "0 < n" by simp
  have nz: "of_int n < z" "z \<le> of_int n + 1" using ceiling_correct[of z] by (simp_all add: n_def)
  have b1: "1 \<le> bitlen n" using n1 by (simp add: bitlen_alt_def)
  from bitlen_bounds[OF n0]
  have lo: "2 ^ nat (bitlen n - 1) \<le> n" and hi: "n < 2 ^ nat (bitlen n)" by auto
  have e: "ilog2 x = - bitlen n" using False by (simp add: ilog2_def n_def z_def)
  have "n + 1 \<le> 2 ^ nat (bitlen n)" using hi by simp
  then have "(of_int (n + 1) :: rat) \<le> of_int (2 ^ nat (bitlen n))" by (simp only: of_int_le_iff)
  then have "z \<le> 2 ^ nat (bitlen n)" using nz by simp
  then have "1 / x \<le> 2 ^ nat (bitlen n)" by (simp add: z_def)
  then have "1 / 2 ^ nat (bitlen n) \<le> x" using assms
    by (simp add: field_simps)
  moreover have "(2::rat) powi (- bitlen n) = 1 / 2 ^ nat (bitlen n)"
    using b1 by (simp add: power_int_def field_simps)
  ultimately have A: "2 powi (ilog2 x) \<le> x" by (simp add: e)
  have "(of_int (2 ^ nat (bitlen n - 1)) :: rat) \<le> of_int n" using lo by (simp only: of_int_le_iff)
  then have "(2::rat) ^ nat (bitlen n - 1) \<le> of_int n" by simp
  then have "2 ^ nat (bitlen n - 1) < z" using nz by linarith
  then have "2 ^ nat (bitlen n - 1) < 1 / x" by (simp add: z_def)
  then have "x < 1 / 2 ^ nat (bitlen n - 1)" using assms by (simp add: field_simps)
  moreover have "(2::rat) powi (- bitlen n + 1) = 1 / 2 ^ nat (bitlen n - 1)"
  proof -
    have "- bitlen n + 1 = - (bitlen n - 1)" by simp
    then have "(2::rat) powi (- bitlen n + 1) = 2 powi (- (bitlen n - 1))" by simp
    also have "\<dots> = 1 / 2 powi (bitlen n - 1)" by (rule power_int_minus_divide)
    also have "\<dots> = 1 / 2 ^ nat (bitlen n - 1)" using b1 by (simp add: power_int_def)
    finally show ?thesis .
  qed
  ultimately have B: "x < 2 powi (ilog2 x + 1)" by (simp add: e)
  from A B show ?thesis by simp
qed

lemma ilog2_less:
  assumes "0 < x" "x < 2 powi k"
  shows "ilog2 x < k"
proof -
  have "2 powi (ilog2 x) \<le> x" using ilog2_bounds[OF assms(1)] by simp
  then have "(2::rat) powi (ilog2 x) < 2 powi k" using assms(2) by simp
  then show ?thesis by (simp only: powi2_less_iff)
qed

lemma ilog2_eq:
  assumes "0 < x" "2 powi k \<le> x" "x < 2 powi (k + 1)"
  shows "ilog2 x = k"
proof -
  have "ilog2 x < k + 1" using ilog2_less[OF assms(1) assms(3)] .
  moreover have "(2::rat) powi k < 2 powi (ilog2 x + 1)"
    using ilog2_bounds[OF assms(1)] assms(2) by simp
  then have "k < ilog2 x + 1" by (simp only: powi2_less_iff)
  ultimately show ?thesis by simp
qed

lemma round_half_even_of_int: "round_half_even (of_int m) = m"
  by (simp add: round_half_even_def)

lemma round_half_even_bounds: "\<lfloor>z\<rfloor> \<le> round_half_even z \<and> round_half_even z \<le> \<lceil>z\<rceil>"
proof (cases "z = of_int \<lfloor>z\<rfloor>")
  case True
  then obtain n where "z = of_int n" ..
  then show ?thesis by (simp add: round_half_even_def)
next
  case False
  then have "\<lceil>z\<rceil> = \<lfloor>z\<rfloor> + 1" by (simp add: ceiling_altdef)
  then show ?thesis by (simp add: round_half_even_def Let_def)
qed

lemma round_half_even_abs:
  assumes "\<bar>z\<bar> \<le> of_int N"
  shows "\<bar>round_half_even z\<bar> \<le> N"
proof -
  have "z \<le> of_int N" "of_int (- N) \<le> z" using assms by (simp_all add: abs_le_iff)
  then have "\<lceil>z\<rceil> \<le> N" "- N \<le> \<lfloor>z\<rfloor>" by (simp_all only: ceiling_le_iff le_floor_iff)
  then show ?thesis using round_half_even_bounds[of z] by linarith
qed

lemma double_of_fixed:
  assumes y: "y = of_int m * 2 powi k" and m: "\<bar>m\<bar> < 2 ^ 53" and k: "- 1074 \<le> k"
    and fin: "\<bar>y\<bar> < 2 powi 1024"
  shows "double_of y = Fin y"
proof (cases "y = 0")
  case True
  then show ?thesis by (simp add: double_of_def)
next
  case False
  define e where "e = max (ilog2 \<bar>y\<bar>) (- 1022)"
  define d where "d = k - (e - 52)"
  have pos: "0 < \<bar>y\<bar>" using False by simp
  have "(of_int \<bar>m\<bar> :: rat) < of_int (2 ^ 53)" using m by (simp only: of_int_less_iff)
  then have m': "(of_int \<bar>m\<bar> :: rat) < 2 ^ 53" by simp
  have "\<bar>y\<bar> = of_int \<bar>m\<bar> * 2 powi k" by (simp add: y abs_mult)
  also have "\<dots> < (2::rat) ^ 53 * 2 powi k"
    using m' by (simp only: mult_less_cancel_right_pos zero_less_power_int zero_less_numeral)
  also have "\<dots> = 2 powi (k + 53)" by (simp add: power_int_add)
  finally have "\<bar>y\<bar> < 2 powi (k + 53)" .
  then have "ilog2 \<bar>y\<bar> < k + 53" using pos by (rule ilog2_less[rotated])
  then have d0: "0 \<le> d" using k by (simp add: d_def e_def)
  have "y / 2 powi (e - 52) = of_int m * (2 powi k / 2 powi (e - 52))" by (simp add: y)
  also have "2 powi k / (2::rat) powi (e - 52) = 2 powi d"
    by (simp add: d_def power_int_diff)
  also have "(2::rat) powi d = of_int (2 ^ nat d)" using d0 by (simp add: power_int_def)
  finally have q: "y / 2 powi (e - 52) = of_int (m * 2 ^ nat d)" by simp
  have "of_int (round_half_even (y / 2 powi (e - 52))) * 2 powi (e - 52) = y / 2 powi (e - 52) * 2 powi (e - 52)"
    by (simp only: q round_half_even_of_int)
  also have "\<dots> = y" by simp
  finally have r: "of_int (round_half_even (y / 2 powi (e - 52))) * 2 powi (e - 52) = y" .
  show ?thesis using False fin r
    by (simp add: double_of_def Let_def e_def[symmetric] del: power_int_numeral)
qed

lemma double_of_representable:
  assumes "double_of x = Fin y"
  shows "\<exists>m k. y = of_int m * 2 powi k \<and> \<bar>m\<bar> < 2 ^ 53 \<and> - 1074 \<le> k \<and> \<bar>y\<bar> < 2 powi 1024"
proof (cases "x = 0")
  case True
  then have "y = 0" using assms by (simp add: double_of_def)
  then have "y = of_int 0 * 2 powi 0 \<and> \<bar>0::int\<bar> < 2 ^ 53 \<and> - 1074 \<le> (0::int) \<and> \<bar>y\<bar> < 2 powi 1024"
    by simp
  then show ?thesis by blast
next
  case False
  define e where "e = max (ilog2 \<bar>x\<bar>) (- 1022)"
  define q :: rat where "q = 2 powi (e - 52)"
  define m where "m = round_half_even (x / q)"
  have q0: "0 < q" by (simp add: q_def)
  have yq: "y = of_int m * q" and fin: "\<bar>y\<bar> < 2 powi 1024"
    using assms False
    by (auto simp add: double_of_def Let_def e_def[symmetric] q_def[symmetric] m_def[symmetric]
        split: if_splits simp del: power_int_numeral)
  have pos: "0 < \<bar>x\<bar>" using False by simp
  have "\<bar>x\<bar> < 2 powi (ilog2 \<bar>x\<bar> + 1)" using ilog2_bounds[OF pos] by simp
  also have "\<dots> \<le> 2 powi (e + 1)" by (simp only: powi2_le_iff) (simp add: e_def)
  finally have "\<bar>x\<bar> < 2 powi (e + 1)" .
  then have "\<bar>x\<bar> / q < 2 powi (e + 1) / q" using q0 by (simp add: divide_strict_right_mono)
  moreover have "2 powi (e + 1) / q = 2 ^ 53" by (simp add: q_def power_int_diff[symmetric])
  ultimately have "\<bar>x / q\<bar> \<le> of_int (2 ^ 53)" using q0 by simp
  then have mb: "\<bar>m\<bar> \<le> 2 ^ 53" unfolding m_def by (rule round_half_even_abs)
  show ?thesis
  proof (cases "\<bar>m\<bar> < 2 ^ 53")
    case True
    have "- 1074 \<le> e - 52" by (simp add: e_def)
    then show ?thesis using True yq fin unfolding q_def by blast
  next
    case False
    then have "\<bar>m\<bar> = 2 ^ 53" using mb by simp
    then have "m = 2 ^ 53 \<or> m = - (2 ^ 53)" by linarith
    then have m2: "m = 2 * (m div 2)" and md: "\<bar>m div 2\<bar> < 2 ^ 53" by auto
    have "y = of_int (m div 2) * (2 * q)" using yq m2 by (metis mult.assoc of_int_mult of_int_numeral mult.commute)
    also have "2 * q = 2 powi (e - 51)" by (simp add: q_def power_int_diff power_int_add field_simps)
    finally have "y = of_int (m div 2) * 2 powi (e - 51)" .
    moreover have "- 1074 \<le> e - 51" by (simp add: e_def)
    ultimately show ?thesis using md fin by blast
  qed
qed

lemma double_of_idem:
  assumes "double_of x = Fin y"
  shows "double_of y = Fin y"
proof -
  from double_of_representable[OF assms] obtain m k
    where "y = of_int m * 2 powi k" "\<bar>m\<bar> < 2 ^ 53" "- 1074 \<le> k" "\<bar>y\<bar> < 2 powi 1024"
    by blast
  then show ?thesis by (rule double_of_fixed)
qed

lemma double_of_0: "double_of 0 = Fin 0"
  by (simp add: double_of_def)

section \<open>Evaluation on numerals and literals\<close>

lemma bitlen_numeral_simps:
  "bitlen 1 = 1"
  "bitlen (numeral Num.One) = 1"
  "bitlen (numeral (Num.Bit0 n)) = bitlen (numeral n) + 1"
  "bitlen (numeral (Num.Bit1 n)) = bitlen (numeral n) + 1"
  by (subst compute_bitlen, simp)+

lemma floor_rat_numeral_simps:
  "\<lfloor>numeral a / numeral b :: rat\<rfloor> = numeral a div numeral b"
  "\<lfloor>- (numeral a / numeral b) :: rat\<rfloor> = - numeral a div numeral b"
  "\<lfloor>1 / numeral b :: rat\<rfloor> = 1 div numeral b"
  "\<lfloor>- (1 / numeral b) :: rat\<rfloor> = - 1 div numeral b"
     apply (metis floor_divide_of_int_eq of_int_numeral)
    apply (metis divide_minus_left floor_divide_of_int_eq of_int_neg_numeral of_int_numeral)
   apply (metis floor_divide_of_int_eq of_int_numeral of_int_1)
  apply (metis divide_minus_left floor_divide_of_int_eq of_int_minus of_int_1 of_int_numeral)
  done

lemmas num_eval = double_of_def ilog2_def round_half_even_def Let_def bitlen_numeral_simps
  floor_rat_numeral_simps ceiling_def fsub_def fgt_def fge_def fle_def feq_def isNaN_def num_or_def

lemmas str_eval = code_def is_ws_def is_digit_def is_hex_digit_def digit_val_def digits_val_def
  trimStart_def trim_def upper_char_def toUpperCase_def startsWith_def scan_sign_def
  scan_exponent_def scan_decimal_def parseFloat_def parseInt_def scan_radix_literal_def Number_def

lemmas adj_eval = getTipologyAdj_def getAgeAdj_def getStateAdj_def getClassAdj_def
  getFloorAdj_def getElevatorAdj_def getGarageAdj_def getBalconyAdj_def

lemmas factor_eval = getTipologyFactor_def getAgeFactor_def getStateFactor_def getClassFactor_def
  getPoolFactor_def getGardenFactor_def

lemmas example_defs = fd_apartment_def fd_house_def fd_plain_def fd_year19_def
  fd_huge_def initialFormData_def Nao_def prices_2000_def prices_1800_def

lemma double_of_1: "double_of 1 = Fin 1"
  by (simp add: num_eval)

section \<open>Facts about the operations\<close>

lemma fmul_Fin_idem:
  assumes "fmul a b = Fin v"
  shows "double_of v = Fin v"
proof -
  from assms obtain x y where "a = Fin x" "b = Fin y"
    by (cases a; cases b) (simp_all add: Let_def split: if_splits)
  with assms have "double_of (x * y) = Fin v" by simp
  then show ?thesis by (rule double_of_idem)
qed

lemma fmul_fmul_one: "fmul (fmul a b) (Fin 1) = fmul a b"
proof (cases "fmul a b")
  case (Fin v)
  then show ?thesis using fmul_Fin_idem[OF Fin] by simp
qed simp_all

lemma not_fle_iff_fgt:
  assumes "a \<noteq> NaN" "b \<noteq> NaN"
  shows "(\<not> fle a b) = fgt a b"
  using assms by (cases a; cases b) (auto simp add: fle_def feq_def fgt_def)

lemma is_integer_Math_round: "is_integer (Math_round p) = is_finite p"
  by (cases p) simp_all

section \<open>The apartment formula with no adjustment\<close>

lemma age_adj_zero:
  assumes "fsub (Fin (of_int cy)) (parseInt y) = Fin a" "10 < a" "a \<le> 15"
  shows "getAgeAdj cy y = Fin 0"
proof -
  have "parseInt y \<noteq> NaN" using assms(1) by (auto simp add: fsub_def)
  then show ?thesis using assms by (simp add: getAgeAdj_def Let_def isNaN_def fgt_def)
qed

lemma floor_adj_zero:
  assumes "parseInt f = Fin 1 \<or> parseInt f = Fin 2"
  shows "getFloorAdj f e = Fin 0"
  using assms by (auto simp add: getFloorAdj_def Let_def isNaN_def feq_def)

text \<open>
  Claim C1, as amended. For every answer set of an apartment with layout T3, a construction
  age (the current year minus the parsed year) above 10 and at most 15, that is 11 to 15
  in whole years, condition and energy class unset, floor 1 or 2 and no elevator, garage or
  balcony, the total adjustment is 0 and the estimated value is the rounded product of
  the living area, 1.25 and the price per area.
\<close>

theorem C1_zero_adjustment:
  assumes "propertyType fd = ''Apartamento''"
    and "propertyConfig fd = ''T3''"
    and "fsub (Fin (of_int cy)) (parseInt (yearBuilt fd)) = Fin a" and "10 < a" and "a \<le> 15"
    and "conservationState fd = []" and "energyClass fd = []"
    and "parseInt (floor' fd) = Fin 1 \<or> parseInt (floor' fd) = Fin 2"
    and "elevator fd \<noteq> ''Sim''" and "garage fd \<noteq> ''Sim''" and "balcony fd \<noteq> ''Sim''"
  shows "totalAdj cy fd = Fin 0 \<and>
         calculatePropertyValue tbl cy fd =
           Math_round (fmul (fmul (areaUtil fd) (double_of (125 / 100)))
                            (getPricePerSquareMeter tbl (municipality fd)))"
proof -
  have tip: "getTipologyAdj (propertyConfig fd) = Fin 0"
    using assms(2) by (simp add: getTipologyAdj_def str_eval)
  have age: "getAgeAdj cy (yearBuilt fd) = Fin 0"
    using assms(3-5) by (rule age_adj_zero)
  have state: "getStateAdj (conservationState fd) = Fin 0"
    using assms(6) by (simp add: getStateAdj_def)
  have cls: "getClassAdj (energyClass fd) = Fin 0"
    using assms(7) by (simp add: getClassAdj_def str_eval)
  have flr: "getFloorAdj (floor' fd) (elevator fd) = Fin 0"
    using assms(8) by (rule floor_adj_zero)
  have elv: "getElevatorAdj (floor' fd) (elevator fd) = Fin 0"
    using assms(9) by (simp add: getElevatorAdj_def Let_def)
  have gar: "getGarageAdj (garage fd) = Fin 0"
    using assms(10) by (simp add: getGarageAdj_def)
  have bal: "getBalconyAdj (balcony fd) = Fin 0"
    using assms(11) by (simp add: getBalconyAdj_def)
  have total: "totalAdj cy fd = Fin 0"
    by (simp add: totalAdj_def tip age state cls flr elv gar bal double_of_0)
  have "fadd (Fin 1) (totalAdj cy fd) = Fin 1"
    by (simp add: total double_of_1)
  then have "calculatePropertyValue tbl cy fd =
      Math_round (fmul (fmul (areaUtil fd) (double_of (125 / 100)))
                       (getPricePerSquareMeter tbl (municipality fd)))"
    using assms(1) by (simp add: calculatePropertyValue_def Let_def fmul_fmul_one)
  with total show ?thesis by simp
qed

lemma plain_fields:
  "propertyType (fd_plain y) = ''Apartamento''" "propertyConfig (fd_plain y) = ''T3''"
  "yearBuilt (fd_plain y) = y" "conservationState (fd_plain y) = []"
  "energyClass (fd_plain y) = []" "floor' (fd_plain y) = ''1''"
  "elevator (fd_plain y) = []" "garage (fd_plain y) = []" "balcony (fd_plain y) = []"
  "livingArea (fd_plain y) = ''100''" "municipality (fd_plain y) = []"
  by (simp_all add: fd_plain_def initialFormData_def)

lemma parseInt_1: "parseInt ''1'' = Fin 1"
  by (simp add: str_eval num_eval)

lemma parseInt_2012: "parseInt ''2012'' = Fin 2012"
  by (simp add: str_eval num_eval)

lemma parseInt_2009: "parseInt ''2009'' = Fin 2009"
  by (simp add: str_eval num_eval)

lemma parseFloat_100: "parseFloat ''100'' = Fin 100"
  by (simp add: str_eval num_eval)

lemma age_13: "fsub (Fin (of_int 2025)) (parseInt ''2012'') = Fin 13"
  by (simp add: parseInt_2012 num_eval)

lemma age_16: "fsub (Fin 2025) (parseInt ''2009'') = Fin 16"
  by (simp add: parseInt_2009 num_eval)

lemma plain_base:
  "Math_round (fmul (fmul (areaUtil (fd_plain y)) (double_of (125 / 100)))
     (getPricePerSquareMeter Map.empty (municipality (fd_plain y)))) = Fin 187500"
  by (simp add: areaUtil_def plain_fields parseFloat_100 getPricePerSquareMeter_def num_eval)

text \<open>The theorem at a plain apartment built in 2012, valued in 2025 at the default price.\<close>

theorem C1_zero_adjustment_witness:
  "propertyType (fd_plain ''2012'') = ''Apartamento'' \<and>
   propertyConfig (fd_plain ''2012'') = ''T3'' \<and>
   fsub (Fin (of_int 2025)) (parseInt (yearBuilt (fd_plain ''2012''))) = Fin 13 \<and>
   (10::rat) < 13 \<and> (13::rat) \<le> 15 \<and>
   conservationState (fd_plain ''2012'') = [] \<and> energyClass (fd_plain ''2012'') = [] \<and>
   parseInt (floor' (fd_plain ''2012'')) = Fin 1 \<and>
   elevator (fd_plain ''2012'') \<noteq> ''Sim'' \<and> garage (fd_plain ''2012'') \<noteq> ''Sim'' \<and>
   balcony (fd_plain ''2012'') \<noteq> ''Sim'' \<and>
   totalAdj 2025 (fd_plain ''2012'') = Fin 0 \<and>
   calculatePropertyValue Map.empty 2025 (fd_plain ''2012'') = Fin 187500"
proof -
  have h: "fsub (Fin (of_int 2025)) (parseInt (yearBuilt (fd_plain ''2012''))) = Fin 13"
    by (simp only: plain_fields age_13)
  have f: "parseInt (floor' (fd_plain ''2012'')) = Fin 1"
    by (simp only: plain_fields parseInt_1)
  have "totalAdj 2025 (fd_plain ''2012'') = Fin 0 \<and>
        calculatePropertyValue Map.empty 2025 (fd_plain ''2012'') =
          Math_round (fmul (fmul (areaUtil (fd_plain ''2012'')) (double_of (125 / 100)))
            (getPricePerSquareMeter Map.empty (municipality (fd_plain ''2012''))))"
    using C1_zero_adjustment [of "fd_plain ''2012''" 2025 13 Map.empty] h f
    by (simp add: plain_fields)
  then show ?thesis using h f plain_base [of "''2012''"] by (simp add: plain_fields)
qed

lemma plain_2009_totalAdj: "totalAdj 2025 (fd_plain ''2009'') = double_of (- (5 / 100))"
  by (simp add: totalAdj_def adj_eval plain_fields parseInt_2009 parseInt_1 str_eval num_eval)

lemma plain_2009_value: "calculatePropertyValue Map.empty 2025 (fd_plain ''2009'') = Fin 178125"
  by (simp add: calculatePropertyValue_def plain_2009_totalAdj areaUtil_def plain_fields
      parseFloat_100 getPricePerSquareMeter_def num_eval)

text \<open>
  Claim C1 as stated allows ages up to 20. At age 16 (built in 2009, valued in 2025) the
  age adjustment is \<open>-0.05\<close>: the total adjustment is not 0 and the value is 178125, not
  the rounded base 187500.
\<close>

theorem C1_counterexample:
  "propertyType (fd_plain ''2009'') = ''Apartamento'' \<and>
   propertyConfig (fd_plain ''2009'') = ''T3'' \<and>
   fsub (Fin 2025) (parseInt (yearBuilt (fd_plain ''2009''))) = Fin 16 \<and>
   conservationState (fd_plain ''2009'') = [] \<and> energyClass (fd_plain ''2009'') = [] \<and>
   parseInt (floor' (fd_plain ''2009'')) = Fin 1 \<and>
   elevator (fd_plain ''2009'') \<noteq> ''Sim'' \<and> garage (fd_plain ''2009'') \<noteq> ''Sim'' \<and>
   balcony (fd_plain ''2009'') \<noteq> ''Sim'' \<and>
   totalAdj 2025 (fd_plain ''2009'') \<noteq> Fin 0 \<and>
   calculatePropertyValue Map.empty 2025 (fd_plain ''2009'') = Fin 178125 \<and>
   Math_round (fmul (fmul (areaUtil (fd_plain ''2009'')) (double_of (125 / 100)))
     (getPricePerSquareMeter Map.empty (municipality (fd_plain ''2009'')))) = Fin 187500"
proof -
  have "totalAdj 2025 (fd_plain ''2009'') \<noteq> Fin 0"
    by (simp add: plain_2009_totalAdj num_eval)
  then show ?thesis using plain_base [of "''2009''"]
    by (simp add: plain_fields age_16 parseInt_1 plain_2009_value)
qed

section \<open>The house scenario\<close>

lemma parseFloat_150: "parseFloat ''150'' = Fin 150"
  by (simp add: str_eval num_eval)

lemma parseFloat_400: "parseFloat ''400'' = Fin 400"
  by (simp add: str_eval num_eval)

lemma parseInt_1995: "parseInt ''1995'' = Fin 1995"
  by (simp add: str_eval num_eval)

lemma age_30: "fsub (Fin 2025) (Fin 1995) = Fin 30"
  by (simp add: num_eval)

lemma house_base_sum:
  "fadd (fmul (Fin 150) (double_of (75 / 100))) (fmul (Fin 250) (double_of (35 / 100))) = Fin 200"
  by (simp add: num_eval)

lemma house_factor_product:
  "fmul (fmul (fmul (fmul (fmul (double_of (110 / 100)) (double_of (90 / 100)))
     (double_of (95 / 100))) (double_of (103 / 100))) (Fin 1)) (Fin 1)
   = double_of (968715 / 1000000)"
  by (simp add: num_eval)

lemma house_value:
  "Math_round (fmul (fmul (Fin 200) (Fin 1800)) (double_of (968715 / 1000000))) = Fin 348737"
  by (simp add: num_eval)

lemma house_wrong_base: "double_of (19925 / 100) = Fin (19925 / 100)"
  by (simp add: num_eval)

lemma house_wrong_value:
  "Math_round (fmul (fmul (Fin (19925 / 100)) (Fin 1800)) (double_of (968715 / 1000000)))
   = Fin 347430"
  by (simp add: num_eval)

lemma house_baseArea:
  assumes "livingArea fd = ''150''" and "plotArea fd = ''400''"
  shows "baseArea fd =
           fadd (fmul (Fin 150) (double_of (75 / 100))) (fmul (Fin 250) (double_of (35 / 100)))"
proof -
  have util: "areaUtil fd = Fin 150"
    using assms(1) by (simp add: areaUtil_def parseFloat_150 num_or_def)
  have total: "areaTotal fd = Fin 400"
    using assms(2) by (simp add: areaTotal_def parseFloat_400 num_or_def)
  have diff: "fsub (Fin 400) (Fin 150) = Fin 250"
    by (simp add: num_eval)
  show ?thesis
    by (simp only: baseArea_def util total diff)
qed

lemma house_factors:
  assumes "propertyConfig fd = ''T4+''" and "yearBuilt fd = ''1995''"
    and "conservationState fd = ''needs_renovation''"
    and "pool fd = ''Sim''" and "garden fd = Nao" and "energyClass fd = ''D''"
  shows "factors 2025 fd =
           fmul (fmul (fmul (fmul (fmul (double_of (110 / 100)) (double_of (90 / 100)))
             (double_of (95 / 100))) (double_of (103 / 100))) (Fin 1)) (Fin 1)"
proof -
  have tip: "getTipologyFactor (propertyConfig fd) = double_of (110 / 100)"
    using assms(1) by (simp add: getTipologyFactor_def str_eval)
  have age: "getAgeFactor 2025 (yearBuilt fd) = double_of (90 / 100)"
    using assms(2) by (simp add: getAgeFactor_def parseInt_1995 age_30 isNaN_def fgt_def)
  have state: "getStateFactor (conservationState fd) = double_of (95 / 100)"
    using assms(3) by (simp add: getStateFactor_def)
  have pl: "getPoolFactor (pool fd) = double_of (103 / 100)"
    using assms(4) by (simp add: getPoolFactor_def)
  have gd: "getGardenFactor (garden fd) = Fin 1"
    using assms(5) by (simp add: getGardenFactor_def Nao_def)
  have cls: "getClassFactor (energyClass fd) = Fin 1"
    using assms(6) by (simp add: getClassFactor_def str_eval)
  have one: "fmul (Fin 1) (double_of (110 / 100)) = double_of (110 / 100)"
    by (simp add: num_eval)
  show ?thesis
    by (simp only: factors_def Let_def tip age state pl gd cls one)
qed

lemma house_fields:
  "propertyType fd_house = ''Moradia''" "livingArea fd_house = ''150''"
  "plotArea fd_house = ''400''" "propertyConfig fd_house = ''T4+''"
  "yearBuilt fd_house = ''1995''" "conservationState fd_house = ''needs_renovation''"
  "pool fd_house = ''Sim''" "garden fd_house = Nao" "energyClass fd_house = ''D''"
  "municipality fd_house = ''Porto''"
  by (simp_all add: fd_house_def initialFormData_def)

lemma house_price: "getPricePerSquareMeter prices_1800 (municipality fd_house) = Fin 1800"
  by (simp add: getPricePerSquareMeter_def prices_1800_def house_fields)

text \<open>
  Claim C2, as amended. For the answer set of the house scenario (living area 150, plot
  area 400, layout T4+, built in 1995 and valued in 2025, needing renovation, pool, no
  garden, energy class D, price per area 1800), the base area is
  \<open>150 * 0.75 + 250 * 0.35\<close>, which is 200, the combined factor is
  \<open>1.10 * 0.90 * 0.95 * 1.03 * 1.00 * 1.00\<close>, and the estimated value is the rounded
  product of the base area, 1800 and that factor, which is 348737.
\<close>

theorem C2_house_scenario:
  assumes "propertyType fd = ''Moradia''" and "livingArea fd = ''150''"
    and "plotArea fd = ''400''" and "propertyConfig fd = ''T4+''"
    and "yearBuilt fd = ''1995''" and "conservationState fd = ''needs_renovation''"
    and "pool fd = ''Sim''" and "garden fd = Nao" and "energyClass fd = ''D''"
    and "getPricePerSquareMeter tbl (municipality fd) = Fin 1800"
  shows "baseArea fd =
           fadd (fmul (Fin 150) (double_of (75 / 100))) (fmul (Fin 250) (double_of (35 / 100))) \<and>
         baseArea fd = Fin 200 \<and>
         factors 2025 fd =
           fmul (fmul (fmul (fmul (fmul (double_of (110 / 100)) (double_of (90 / 100)))
             (double_of (95 / 100))) (double_of (103 / 100))) (Fin 1)) (Fin 1) \<and>
         calculatePropertyValue tbl 2025 fd =
           Math_round (fmul (fmul (baseArea fd) (Fin 1800)) (factors 2025 fd)) \<and>
         calculatePropertyValue tbl 2025 fd = Fin 348737"
proof -
  have base: "baseArea fd =
      fadd (fmul (Fin 150) (double_of (75 / 100))) (fmul (Fin 250) (double_of (35 / 100)))"
    using assms(2,3) by (rule house_baseArea)
  have base200: "baseArea fd = Fin 200"
    by (simp only: base house_base_sum)
  have fac: "factors 2025 fd =
      fmul (fmul (fmul (fmul (fmul (double_of (110 / 100)) (double_of (90 / 100)))
        (double_of (95 / 100))) (double_of (103 / 100))) (Fin 1)) (Fin 1)"
    using assms(4-9) by (rule house_factors)
  have val: "calculatePropertyValue tbl 2025 fd =
      Math_round (fmul (fmul (baseArea fd) (Fin 1800)) (factors 2025 fd))"
    using assms(1) assms(10) by (simp add: calculatePropertyValue_def)
  have "calculatePropertyValue tbl 2025 fd = Fin 348737"
    by (simp only: val base200 fac house_factor_product house_value)
  with base base200 fac val show ?thesis by blast
qed

text \<open>The theorem at the scenario's answer set, priced by a table with the entry 1800.\<close>

theorem C2_house_scenario_witness:
  "propertyType fd_house = ''Moradia'' \<and> livingArea fd_house = ''150'' \<and>
   plotArea fd_house = ''400'' \<and> propertyConfig fd_house = ''T4+'' \<and>
   yearBuilt fd_house = ''1995'' \<and> conservationState fd_house = ''needs_renovation'' \<and>
   pool fd_house = ''Sim'' \<and> garden fd_house = Nao \<and> energyClass fd_house = ''D'' \<and>
   getPricePerSquareMeter prices_1800 (municipality fd_house) = Fin 1800 \<and>
   baseArea fd_house = Fin 200 \<and>
   calculatePropertyValue prices_1800 2025 fd_house = Fin 348737"
proof -
  have "baseArea fd_house =
           fadd (fmul (Fin 150) (double_of (75 / 100))) (fmul (Fin 250) (double_of (35 / 100))) \<and>
         baseArea fd_house = Fin 200 \<and>
         factors 2025 fd_house =
           fmul (fmul (fmul (fmul (fmul (double_of (110 / 100)) (double_of (90 / 100)))
             (double_of (95 / 100))) (double_of (103 / 100))) (Fin 1)) (Fin 1) \<and>
         calculatePropertyValue prices_1800 2025 fd_house =
           Math_round (fmul (fmul (baseArea fd_house) (Fin 1800)) (factors 2025 fd_house)) \<and>
         calculatePropertyValue prices_1800 2025 fd_house = Fin 348737"
    by (rule C2_house_scenario [OF house_fields(1-9) house_price])
  with house_fields(1-9) house_price show ?thesis by blast
qed

text \<open>
  Claim C2 as stated gives the base area as 199.25. The code computes 200, and the value
  348737 is not the 347430 that a base area of 199.25 would give.
\<close>

theorem C2_counterexample:
  "baseArea fd_house = Fin 200 \<and>
   baseArea fd_house \<noteq> double_of (19925 / 100) \<and>
   calculatePropertyValue prices_1800 2025 fd_house = Fin 348737 \<and>
   Math_round (fmul (fmul (double_of (19925 / 100)) (Fin 1800)) (factors 2025 fd_house))
     = Fin 347430"
proof -
  have base: "baseArea fd_house = Fin 200"
    using house_baseArea [OF house_fields(2,3)] by (simp only: house_base_sum)
  have neq: "baseArea fd_house \<noteq> double_of (19925 / 100)"
    using house_wrong_base by (simp add: base)
  have fac: "factors 2025 fd_house = double_of (968715 / 1000000)"
    using house_factors [OF house_fields(4-9)] by (simp only: house_factor_product)
  have val: "calculatePropertyValue prices_1800 2025 fd_house =
      Math_round (fmul (fmul (baseArea fd_house) (Fin 1800)) (factors 2025 fd_house))"
    using house_price by (simp add: calculatePropertyValue_def house_fields)
  have v1: "calculatePropertyValue prices_1800 2025 fd_house = Fin 348737"
    by (simp only: val base fac house_value)
  have v2: "Math_round (fmul (fmul (double_of (19925 / 100)) (Fin 1800)) (factors 2025 fd_house))
     = Fin 347430"
    by (simp only: fac house_wrong_base house_wrong_value)
  from base neq v1 v2 show ?thesis by blast
qed

section \<open>The apartment scenario\<close>

lemma parseFloat_80: "parseFloat ''80'' = Fin 80"
  by (simp add: str_eval num_eval)

lemma parseInt_5: "parseInt ''5'' = Fin 5"
  by (simp add: str_eval num_eval)

lemma parseInt_2010: "parseInt ''2010'' = Fin 2010"
  by (simp add: str_eval num_eval)

lemma age_15: "fsub (Fin 2025) (Fin 2010) = Fin 15"
  by (simp add: num_eval)

lemma apartment_sum:
  "fadd (fadd (fadd (fadd (fadd (fadd (fadd (double_of (- (5 / 100))) (Fin 0))
     (double_of (10 / 100))) (double_of (2 / 100))) (double_of (3 / 100)))
     (double_of (5 / 100))) (double_of (5 / 100))) (Fin 0)
   = double_of (20 / 100)"
  by (simp add: num_eval)

lemma apartment_one_plus: "fadd (Fin 1) (double_of (20 / 100)) = double_of (120 / 100)"
  by (simp add: num_eval)

lemma apartment_value:
  "Math_round (fmul (fmul (fmul (Fin 80) (double_of (125 / 100))) (Fin 2000))
     (double_of (120 / 100))) = Fin 240000"
  by (simp add: num_eval)

lemma apartment_adjustments:
  assumes "propertyConfig fd = ''T2''" and "yearBuilt fd = ''2010''"
    and "conservationState fd = ''good''" and "energyClass fd = ''B''"
    and "floor' fd = ''5''" and "elevator fd = ''Sim''"
    and "garage fd = ''Sim''" and "balcony fd = Nao"
  shows "getTipologyAdj (propertyConfig fd) = double_of (- (5 / 100))"
    and "getAgeAdj 2025 (yearBuilt fd) = Fin 0"
    and "getStateAdj (conservationState fd) = double_of (10 / 100)"
    and "getClassAdj (energyClass fd) = double_of (2 / 100)"
    and "getFloorAdj (floor' fd) (elevator fd) = double_of (3 / 100)"
    and "getElevatorAdj (floor' fd) (elevator fd) = double_of (5 / 100)"
    and "getGarageAdj (garage fd) = double_of (5 / 100)"
    and "getBalconyAdj (balcony fd) = Fin 0"
proof -
  show "getTipologyAdj (propertyConfig fd) = double_of (- (5 / 100))"
    using assms(1) by (simp add: getTipologyAdj_def str_eval)
  show "getAgeAdj 2025 (yearBuilt fd) = Fin 0"
    using assms(2) by (simp add: getAgeAdj_def parseInt_2010 age_15 isNaN_def fgt_def)
  show "getStateAdj (conservationState fd) = double_of (10 / 100)"
    using assms(3) by (simp add: getStateAdj_def)
  show "getClassAdj (energyClass fd) = double_of (2 / 100)"
    using assms(4) by (simp add: getClassAdj_def str_eval)
  show "getFloorAdj (floor' fd) (elevator fd) = double_of (3 / 100)"
    using assms(5,6)
    by (simp add: getFloorAdj_def parseInt_5 isNaN_def feq_def fge_def fle_def)
  show "getElevatorAdj (floor' fd) (elevator fd) = double_of (5 / 100)"
    using assms(5,6)
    by (simp add: getElevatorAdj_def parseInt_5 isNaN_def feq_def fge_def fle_def)
  show "getGarageAdj (garage fd) = double_of (5 / 100)"
    using assms(7) by (simp add: getGarageAdj_def)
  show "getBalconyAdj (balcony fd) = Fin 0"
    using assms(8) by (simp add: getBalconyAdj_def Nao_def)
qed

lemma apartment_fields:
  "propertyType fd_apartment = ''Apartamento''" "livingArea fd_apartment = ''80''"
  "propertyConfig fd_apartment = ''T2''" "yearBuilt fd_apartment = ''2010''"
  "conservationState fd_apartment = ''good''" "energyClass fd_apartment = ''B''"
  "floor' fd_apartment = ''5''" "elevator fd_apartment = ''Sim''"
  "garage fd_apartment = ''Sim''" "balcony fd_apartment = Nao"
  "municipality fd_apartment = ''Porto''"
  by (simp_all add: fd_apartment_def initialFormData_def)

lemma apartment_price:
  "getPricePerSquareMeter prices_2000 (municipality fd_apartment) = Fin 2000"
  by (simp add: getPricePerSquareMeter_def prices_2000_def apartment_fields)

text \<open>
  Claim C5. For the answer set of the apartment scenario (living area 80, floor 5 with
  elevator, layout T2, built in 2010 and valued in 2025 so that the age is 15, good
  condition, energy class B, garage, no balcony, price per area 2000), the adjustments are
  \<open>-0.05\<close> (layout), 0 (age), 0.10 (condition), 0.02 (energy), 0.03 (floor), 0.05
  (elevator), 0.05 (garage) and 0 (balcony), their total is 0.20, and the estimated value
  is the rounded \<open>80 * 1.25 * 2000 * 1.20\<close>, which is 240000.
\<close>

theorem C5_apartment_scenario:
  assumes "propertyType fd = ''Apartamento''" and "livingArea fd = ''80''"
    and "propertyConfig fd = ''T2''" and "yearBuilt fd = ''2010''"
    and "conservationState fd = ''good''" and "energyClass fd = ''B''"
    and "floor' fd = ''5''" and "elevator fd = ''Sim''"
    and "garage fd = ''Sim''" and "balcony fd = Nao"
    and "getPricePerSquareMeter tbl (municipality fd) = Fin 2000"
  shows "getTipologyAdj (propertyConfig fd) = double_of (- (5 / 100)) \<and>
         getAgeAdj 2025 (yearBuilt fd) = Fin 0 \<and>
         getStateAdj (conservationState fd) = double_of (10 / 100) \<and>
         getClassAdj (energyClass fd) = double_of (2 / 100) \<and>
         getFloorAdj (floor' fd) (elevator fd) = double_of (3 / 100) \<and>
         getElevatorAdj (floor' fd) (elevator fd) = double_of (5 / 100) \<and>
         getGarageAdj (garage fd) = double_of (5 / 100) \<and>
         getBalconyAdj (balcony fd) = Fin 0 \<and>
         totalAdj 2025 fd = double_of (20 / 100) \<and>
         calculatePropertyValue tbl 2025 fd =
           Math_round (fmul (fmul (fmul (Fin 80) (double_of (125 / 100))) (Fin 2000))
             (double_of (120 / 100))) \<and>
         calculatePropertyValue tbl 2025 fd = Fin 240000"
proof -
  note adj = apartment_adjustments [OF assms(3-10)]
  have total: "totalAdj 2025 fd = double_of (20 / 100)"
    by (simp only: totalAdj_def Let_def adj apartment_sum)
  have util: "areaUtil fd = Fin 80"
    using assms(2) by (simp add: areaUtil_def parseFloat_80 num_or_def)
  have "calculatePropertyValue tbl 2025 fd =
      Math_round (fmul (fmul (fmul (areaUtil fd) (double_of (125 / 100))) (Fin 2000))
        (fadd (Fin 1) (totalAdj 2025 fd)))"
    using assms(1) assms(11) by (simp add: calculatePropertyValue_def)
  then have val: "calculatePropertyValue tbl 2025 fd =
      Math_round (fmul (fmul (fmul (Fin 80) (double_of (125 / 100))) (Fin 2000))
        (double_of (120 / 100)))"
    by (simp only: util total apartment_one_plus)
  have "calculatePropertyValue tbl 2025 fd = Fin 240000"
    by (simp only: val apartment_value)
  with adj total val show ?thesis by blast
qed

text \<open>The theorem at the scenario's answer set, priced by a table with the entry 2000.\<close>

theorem C5_apartment_scenario_witness:
  "propertyType fd_apartment = ''Apartamento'' \<and> livingArea fd_apartment = ''80'' \<and>
   propertyConfig fd_apartment = ''T2'' \<and> yearBuilt fd_apartment = ''2010'' \<and>
   conservationState fd_apartment = ''good'' \<and> energyClass fd_apartment = ''B'' \<and>
   floor' fd_apartment = ''5'' \<and> elevator fd_apartment = ''Sim'' \<and>
   garage fd_apartment = ''Sim'' \<and> balcony fd_apartment = Nao \<and>
   getPricePerSquareMeter prices_2000 (municipality fd_apartment) = Fin 2000 \<and>
   totalAdj 2025 fd_apartment = double_of (20 / 100) \<and>
   calculatePropertyValue prices_2000 2025 fd_apartment = Fin 240000"
proof -
  note r = C5_apartment_scenario [OF apartment_fields(1-10) apartment_price]
  from r have "totalAdj 2025 fd_apartment = double_of (20 / 100)" by blast
  moreover from r have "calculatePropertyValue prices_2000 2025 fd_apartment = Fin 240000"
    by blast
  ultimately show ?thesis using apartment_fields(1-10) apartment_price by blast
qed

section \<open>The step sequence\<close>

lemma steps_split:
  "steps cy fd =
     ([''Tipo'', ''AreaUtil'']
        @ (if propertyType fd = ''Moradia'' then [''AreaTotal'']
           else if propertyType fd = ''Apartamento'' then [''Floor''] else [])
        @ [''Tipologia'', ''Ano''])
     @ (if parseInt (yearBuilt fd) \<noteq> NaN
           \<and> fgt (fsub (Fin (of_int cy)) (parseInt (yearBuilt fd))) (Fin 15)
        then [''Conservacao''] else [])
     @ [''ClasseEnergetica'']
     @ ((if propertyType fd = ''Moradia'' then [''Piscina'', ''Jardim'']
         else if propertyType fd = ''Apartamento'' then [''Elevador'', ''Varanda'', ''Garagem'']
         else [])
        @ [''Localizacao'', ''Contacto'', ''Resultado''])"
  by (simp add: steps_def Let_def isNaN_def)

lemma steps_length: "8 \<le> length (steps cy fd)"
  by (simp add: steps_split)

lemma steps_nonempty: "steps cy fd \<noteq> []"
  using steps_length[of cy fd] by auto

lemma steps_distinct: "distinct (steps cy fd)"
  by (simp add: steps_split)

lemma steps_same:
  assumes "propertyType fd' = propertyType fd" and "yearBuilt fd' = yearBuilt fd"
  shows "steps cy fd' = steps cy fd"
  using assms by (simp add: steps_def)

lemma step_at_range:
  assumes "step_at xs i = Some n"
  shows "0 \<le> i" and "i < int (length xs)" and "xs ! nat i = n"
  using assms by (auto simp add: step_at_def split: if_splits)

lemma step_at_index:
  assumes "distinct xs" and "step_at xs i = Some n" and "k < length xs" and "xs ! k = n"
  shows "i = int k"
proof -
  have "nat i < length xs" and "xs ! nat i = xs ! k" and "0 \<le> i"
    using step_at_range[OF assms(2)] assms(4) by simp_all
  then have "nat i = k"
    using assms(1,3) by (simp add: nth_eq_iff_index_eq)
  with \<open>0 \<le> i\<close> show ?thesis by simp
qed

lemma step_Tipo:
  assumes "step_at (steps cy fd) i = Some ''Tipo''"
  shows "i = 0"
proof -
  have a: "0 < length (steps cy fd)"
    using steps_length[of cy fd] by linarith
  have b: "steps cy fd ! 0 = ''Tipo''"
    by (simp add: steps_split)
  from step_at_index[OF steps_distinct assms a b] show ?thesis by simp
qed

lemma step_Ano:
  assumes "step_at (steps cy fd) i = Some ''Ano''"
  shows "i \<le> 4"
proof -
  define k :: nat where
    "k = (if propertyType fd = ''Moradia'' \<or> propertyType fd = ''Apartamento'' then 4 else 3)"
  have "k < length (steps cy fd)" and "steps cy fd ! k = ''Ano''"
    by (simp_all add: steps_split k_def)
  then have "i = int k" by (rule step_at_index[OF steps_distinct assms])
  then show ?thesis by (simp add: k_def)
qed

section \<open>Numeric text\<close>

lemma double_of_not_NaN: "double_of x \<noteq> NaN"
  by (simp add: double_of_def Let_def)

lemma digit_not_special:
  assumes "is_digit c"
  shows "\<not> is_ws c" and "c \<noteq> CHR ''-''" and "c \<noteq> CHR ''+''" and "c \<noteq> CHR ''x''"
    and "c \<noteq> CHR ''X''"
  using assms by (auto simp add: is_digit_def is_ws_def code_def)

lemma trim_id:
  assumes "s \<noteq> []" and "\<not> is_ws (hd s)" and "\<not> is_ws (last s)"
  shows "trim s = s"
proof -
  have a: "dropWhile is_ws s = s"
    using assms(1,2) by (cases s) simp_all
  have b: "dropWhile is_ws (rev s) = rev s"
  proof (cases "rev s")
    case Nil
    then show ?thesis by simp
  next
    case (Cons c t)
    then have "c = last s" using assms(1) by (metis hd_rev list.sel(1))
    then show ?thesis using assms(3) by (simp add: Cons)
  qed
  show ?thesis by (simp add: trim_def a b)
qed

lemma Number_NaN_D:
  assumes "Number s = NaN"
  shows "\<forall>v. scan_decimal (snd (scan_sign (trim s))) \<noteq> Some (v, [])"
  using assms
  by (auto simp add: Number_def Let_def double_of_not_NaN
      split: if_splits option.splits prod.splits list.splits)

lemma scan_sign_cases: "snd (scan_sign t) = t \<or> snd (scan_sign t) = tl t"
  by (cases t) (simp_all add: scan_sign_def)

lemma number_input_shape:
  assumes v: "number_input_value s" and ne: "s \<noteq> []"
  shows "\<not> is_ws (hd s)" and "\<exists>p w. s = p @ w \<and> w \<noteq> [] \<and> list_all is_digit w"
    and "\<exists>x. scan_decimal (snd (scan_sign s)) = Some (x, [])"
proof -
  define u where "u = (case s of [] \<Rightarrow> [] | c # t \<Rightarrow> if c = CHR ''-'' then t else s)"
  define ip where "ip = takeWhile is_digit u"
  define r1 where "r1 = dropWhile is_digit u"
  define fr where "fr = (case r1 of [] \<Rightarrow> False | c # t \<Rightarrow> c = CHR ''.'' \<and> takeWhile is_digit t \<noteq> [])"
  define r2 where "r2 = (if fr then dropWhile is_digit (tl r1) else r1)"
  have "(fr \<or> ip \<noteq> []) \<and>
      (case r2 of [] \<Rightarrow> True
           | c # t \<Rightarrow> (c = CHR ''e'' \<or> c = CHR ''E'') \<and>
                      (let w = snd (scan_sign t) in w \<noteq> [] \<and> list_all is_digit w))"
    using v ne unfolding number_input_value_def Let_def u_def ip_def r1_def fr_def r2_def
    by blast
  then have some: "fr \<or> ip \<noteq> []"
    and ex: "case r2 of [] \<Rightarrow> True
           | c # t \<Rightarrow> (c = CHR ''e'' \<or> c = CHR ''E'') \<and>
                      (let w = snd (scan_sign t) in w \<noteq> [] \<and> list_all is_digit w)"
    by blast+
  have su: "s = u \<or> s = CHR ''-'' # u"
    using ne by (cases s) (simp_all add: u_def)
  have u_split: "u = ip @ r1"
    by (simp add: ip_def r1_def)
  have ip_digits: "list_all is_digit ip"
    by (simp add: ip_def list_all_iff) (meson set_takeWhileD)
  have une: "u \<noteq> []"
    using some by (auto simp add: ip_def fr_def r1_def split: list.splits)
  have hdu: "is_digit (hd u) \<or> hd u = CHR ''.''"
  proof (cases "ip = []")
    case False
    then have "hd u = hd ip" by (simp add: u_split)
    moreover have "is_digit (hd ip)" using False ip_digits by (cases ip) simp_all
    ultimately show ?thesis by simp
  next
    case True
    then have "fr" and "u = r1" using some by (simp_all add: u_split)
    then show ?thesis by (auto simp add: fr_def split: list.splits)
  qed
  show "\<not> is_ws (hd s)"
    using su hdu une digit_not_special(1)
    by (auto simp add: is_ws_def code_def)
  have sign: "snd (scan_sign s) = u"
  proof (cases s)
    case Nil
    then show ?thesis using ne by simp
  next
    case (Cons c t)
    show ?thesis
    proof (cases "c = CHR ''-''")
      case True
      then show ?thesis by (simp add: scan_sign_def Cons u_def)
    next
      case False
      then have "u = s" by (simp add: u_def Cons)
      then have "is_digit c \<or> c = CHR ''.''" using hdu Cons by simp
      then have "c \<noteq> CHR ''+''" using digit_not_special(3) by auto
      then show ?thesis using False by (simp add: scan_sign_def Cons u_def)
    qed
  qed
  have r1_tl: "fr \<Longrightarrow> r1 = CHR ''.'' # takeWhile is_digit (tl r1) @ r2"
    by (auto simp add: fr_def r2_def split: list.splits)
  have r1_nofr: "\<not> fr \<Longrightarrow> r1 = r2"
    by (simp add: r2_def)
  have fp_digits: "list_all is_digit (takeWhile is_digit (tl r1))"
    by (simp add: list_all_iff) (meson set_takeWhileD)
  have fp_ne: "fr \<Longrightarrow> takeWhile is_digit (tl r1) \<noteq> []"
    by (auto simp add: fr_def split: list.splits)
  show "\<exists>p w. s = p @ w \<and> w \<noteq> [] \<and> list_all is_digit w"
  proof (cases r2)
    case Nil
    show ?thesis
    proof (cases fr)
      case True
      then have "u = (ip @ [CHR ''.'']) @ takeWhile is_digit (tl r1)"
        using r1_tl Nil by (simp add: u_split)
      then have "\<exists>p. s = p @ takeWhile is_digit (tl r1)"
        using su by (metis append_Cons)
      then show ?thesis using fp_ne[OF True] fp_digits by blast
    next
      case False
      then have "u = ip" and "ip \<noteq> []" using some r1_nofr Nil by (simp_all add: u_split)
      then have "\<exists>p. s = p @ ip" using su by (metis append_Cons append_Nil)
      then show ?thesis using \<open>ip \<noteq> []\<close> ip_digits by blast
    qed
  next
    case (Cons c t)
    define w where "w = snd (scan_sign t)"
    have w: "w \<noteq> []" "list_all is_digit w"
      using ex by (simp_all add: Cons Let_def w_def)
    have "\<exists>q. t = q @ w"
      using scan_sign_cases[of t] w(1) unfolding w_def
      by (metis append_Nil hd_Cons_tl append_Cons list.sel(2))
    then have "\<exists>q. r2 = q @ w" unfolding Cons by (metis append_Cons)
    moreover have "\<exists>q. u = q @ r2"
      using r1_tl r1_nofr u_split by (metis append_Cons append_assoc)
    ultimately have "\<exists>q. u = q @ w" by (metis append_assoc)
    then have "\<exists>p. s = p @ w" using su by (metis append_Cons)
    then show ?thesis using w by blast
  qed
  have ipu: "takeWhile is_digit u = ip" "dropWhile is_digit u = r1"
    by (simp_all add: ip_def r1_def)
  have exp: "\<exists>e. scan_exponent r2 = (e, [])"
  proof (cases r2)
    case Nil
    then show ?thesis by (simp add: scan_exponent_def)
  next
    case (Cons c t)
    define w where "w = snd (scan_sign t)"
    have w: "w \<noteq> []" "list_all is_digit w" and c: "c = CHR ''e'' \<or> c = CHR ''E''"
      using ex by (simp_all add: Cons Let_def w_def)
    have tw: "takeWhile is_digit w = w" "dropWhile is_digit w = []"
      using w(2) by (simp_all add: list_all_iff)
    obtain sg where sg: "scan_sign t = (sg, w)"
      unfolding w_def by (cases "scan_sign t") simp
    show ?thesis
      using c w(1) by (auto simp add: scan_exponent_def Cons sg tw)
  qed
  show "\<exists>x. scan_decimal (snd (scan_sign s)) = Some (x, [])"
  proof (cases fr)
    case True
    then obtain t where r1: "r1 = CHR ''.'' # t" and t: "takeWhile is_digit t \<noteq> []"
      by (auto simp add: fr_def split: list.splits)
    have "r2 = dropWhile is_digit t" using True by (simp add: r2_def r1)
    then show ?thesis
      using exp t
      by (auto simp add: sign scan_decimal_def ipu r1 Let_def split: prod.splits)
  next
    case False
    then have ip: "ip \<noteq> []" and r: "r1 = r2" using some r1_nofr by simp_all
    have nodot: "\<not> (\<exists>t. r2 = CHR ''.'' # t)"
      using ex by (auto split: list.splits)
    show ?thesis
      using exp ip nodot
      by (auto simp add: sign scan_decimal_def ipu r Let_def split: prod.splits list.splits)
  qed
qed

lemma number_input_numeric:
  assumes "number_input_value s"
  shows "Number s \<noteq> NaN"
proof (cases "s = []")
  case True
  then show ?thesis by (simp add: Number_def trim_def)
next
  case False
  from number_input_shape(2)[OF assms False] obtain p w
    where "s = p @ w" "w \<noteq> []" "list_all is_digit w" by blast
  then have "is_digit (last s)" by (simp add: list_all_iff)
  then have "\<not> is_ws (last s)" by (rule digit_not_special(1))
  with False number_input_shape(1)[OF assms False] have "trim s = s" by (rule trim_id)
  then show ?thesis
    using number_input_shape(3)[OF assms False] Number_NaN_D[of s] by auto
qed

lemma digit_not_letter:
  assumes "is_digit c"
  shows "c \<noteq> CHR ''x''" and "c \<noteq> CHR ''X''" and "c \<noteq> CHR ''o''" and "c \<noteq> CHR ''O''"
    and "c \<noteq> CHR ''b''" and "c \<noteq> CHR ''B''" and "c \<noteq> CHR ''I''" and "c \<noteq> CHR ''.''"
  using assms by (auto simp add: is_digit_def code_def)

lemma trim_empty_parseInt:
  assumes "trim s = []"
  shows "parseInt s = NaN"
proof -
  have d: "dropWhile is_ws s = []"
  proof (rule ccontr)
    assume n: "dropWhile is_ws s \<noteq> []"
    then have "\<not> is_ws (hd (dropWhile is_ws s))" by (rule hd_dropWhile)
    moreover have "hd (dropWhile is_ws s) \<in> set (rev (dropWhile is_ws s))"
      using n by simp
    ultimately have "dropWhile is_ws (rev (dropWhile is_ws s)) \<noteq> []"
      by (auto simp add: dropWhile_eq_Nil_conv)
    then show False using assms by (simp add: trim_def)
  qed
  show ?thesis
    by (simp add: parseInt_def trimStart_def d scan_sign_def startsWith_def)
qed

lemma digits_parseInt:
  assumes "s \<noteq> []" and "list_all is_digit s"
  shows "parseInt s = double_of (of_int (digits_val 10 s))"
proof -
  from assms obtain c t where s: "s = c # t" and c: "is_digit c" and t: "list_all is_digit t"
    by (cases s) auto
  have trim: "trimStart s = s"
    using digit_not_special(1) [OF c] by (simp add: trimStart_def s)
  have sign: "scan_sign s = (1, s)"
    using digit_not_special(2,3) [OF c] by (simp add: scan_sign_def s)
  have nohex: "\<not> startsWith s ''0x''" "\<not> startsWith s ''0X''"
    using t digit_not_letter(1,2) by (cases t; auto simp add: startsWith_def s)+
  have z: "takeWhile is_digit s = s"
    using assms(2) by (simp add: list_all_iff)
  show ?thesis
    using assms(1) by (simp add: parseInt_def trim sign nohex z)
qed

lemma digits_Number:
  assumes "s \<noteq> []" and "list_all is_digit s"
  shows "Number s = double_of (of_int (digits_val 10 s))"
proof -
  from assms obtain c t where s: "s = c # t" and c: "is_digit c" and t: "list_all is_digit t"
    by (cases s) auto
  have "is_digit (last s)"
    using assms by (simp add: list_all_iff)
  then have "\<not> is_ws (last s)" by (rule digit_not_special(1))
  moreover have "\<not> is_ws (hd s)" using digit_not_special(1) [OF c] by (simp add: s)
  ultimately have trim: "trim s = s" using assms(1) by (intro trim_id)
  have sign: "scan_sign s = (1, s)"
    using digit_not_special(2,3) [OF c] by (simp add: scan_sign_def s)
  have radix: "scan_radix_literal s = None"
    using t digit_not_letter by (cases t) (auto simp add: scan_radix_literal_def s)
  have inf: "s \<noteq> ''Infinity''"
    using digit_not_letter(7) [OF c] by (auto simp add: s)
  have z: "takeWhile is_digit s = s" "dropWhile is_digit s = []"
    using assms(2) by (simp_all add: list_all_iff)
  have dec: "scan_decimal s = Some (of_int (digits_val 10 s), [])"
    using assms(1) by (simp add: scan_decimal_def z scan_exponent_def)
  show ?thesis
    using assms(1) by (simp add: Number_def trim radix sign inf dec)
qed

lemma digits_parse_agree:
  assumes "s \<noteq> []" and "list_all is_digit s"
  shows "parseInt s = Number s"
  by (simp only: digits_parseInt[OF assms] digits_Number[OF assms])

section \<open>The states the wizard can reach\<close>

lemma renderStep_keeps:
  assumes "renderStep name fd fd'" and "name \<noteq> ''Tipo''" and "name \<noteq> ''Ano''"
  shows "propertyType fd' = propertyType fd" and "yearBuilt fd' = yearBuilt fd"
  using assms
  by (induction rule: renderStep.induct)
    (simp_all add: handleDistrictChange_def handleMunicipalityChange_def)

lemma reach_in_range:
  assumes "reach cy st"
  shows "0 \<le> currentStep st \<and> currentStep st < int (length (steps cy (formData st)))"
  using assms
proof (induction rule: reach.induct)
  case initial
  show ?case by (simp add: steps_nonempty)
next
  case (start st)
  show ?case by (simp add: steps_nonempty)
next
  case (change st name fd')
  have r: "0 \<le> currentStep st"
    using step_at_range(1)[OF change.hyps(3)] .
  show ?case
  proof (cases "name = ''Tipo'' \<or> name = ''Ano''")
    case True
    then have "currentStep st \<le> 4"
    proof
      assume "name = ''Tipo''"
      then have "currentStep st = 0" using change.hyps(3) by (simp add: step_Tipo)
      then show ?thesis by simp
    next
      assume "name = ''Ano''"
      then show ?thesis using change.hyps(3) by (simp add: step_Ano)
    qed
    then show ?thesis using r steps_length[of cy fd'] by simp
  next
    case False
    then have "steps cy fd' = steps cy (formData st)"
      using renderStep_keeps[OF change.hyps(4)] by (intro steps_same) simp_all
    then show ?thesis using change.IH by simp
  qed
next
  case (advance st)
  have "8 \<le> int (length (steps cy (formData st)))"
    using steps_length[of cy "formData st"] by linarith
  then have "0 \<le> goToNextStep cy (formData st) (currentStep st)
      \<and> goToNextStep cy (formData st) (currentStep st) < int (length (steps cy (formData st)))"
    using advance.IH unfolding goToNextStep_def by linarith
  then show ?case by simp
next
  case (retreat st)
  have "0 \<le> goToPreviousStep (currentStep st)
      \<and> goToPreviousStep (currentStep st) < int (length (steps cy (formData st)))"
    using retreat.IH unfolding goToPreviousStep_def by linarith
  then show ?case by simp
next
  case (restart st)
  show ?case by (simp add: steps_nonempty)
qed

lemma renderStep_number_fields:
  assumes "renderStep name fd fd'"
    and "number_input_value (livingArea fd) \<and> number_input_value (plotArea fd)"
  shows "number_input_value (livingArea fd') \<and> number_input_value (plotArea fd')"
  using assms
  by (induction rule: renderStep.induct)
    (simp_all add: handleDistrictChange_def handleMunicipalityChange_def)

lemma reach_number_fields:
  assumes "reach cy st"
  shows "number_input_value (livingArea (formData st))
     \<and> number_input_value (plotArea (formData st))"
  using assms
proof (induction rule: reach.induct)
  case initial
  show ?case by (simp add: initialFormData_def number_input_value_def)
next
  case (start st)
  then show ?case by simp
next
  case (change st name fd')
  show ?case
    using renderStep_number_fields[OF change.hyps(4) change.IH] by simp
next
  case (advance st)
  then show ?case by simp
next
  case (retreat st)
  then show ?case by simp
next
  case (restart st)
  show ?case by (simp add: initialFormData_def number_input_value_def)
qed

lemma Number_150: "Number ''150'' = Fin 150"
  by (simp add: str_eval num_eval)

lemma Number_400: "Number ''400'' = Fin 400"
  by (simp add: str_eval num_eval)

lemma number_input_150: "number_input_value ''150''"
  by (simp add: number_input_value_def is_digit_def code_def)

lemma number_input_400: "number_input_value ''400''"
  by (simp add: number_input_value_def is_digit_def code_def)

lemma reach_total_area: "reach 2025 st_total_area"
proof -
  let ?m = "initialFormData\<lparr>propertyType := ''Moradia''\<rparr>"
  let ?u = "initialFormData\<lparr>propertyType := ''Moradia'', livingArea := ''150''\<rparr>"
  have blank: "yearBuilt initialFormData = []" "propertyType initialFormData = []"
    "trim ''150'' \<noteq> []"
    by (simp_all add: initialFormData_def trim_def is_ws_def code_def)
  have s0: "reach 2025 \<lparr>currentStep = 0, showWelcome = True, formData = initialFormData\<rparr>"
    by (rule reach.initial)
  have s1: "reach 2025 \<lparr>currentStep = 0, showWelcome = False, formData = initialFormData\<rparr>"
    using reach.start [OF s0] by simp
  have "step_at (steps 2025 initialFormData) 0 = Some ''Tipo''"
    by (simp add: steps_split step_at_def)
  moreover have "renderStep ''Tipo'' initialFormData ?m"
    by (rule renderStep.Tipo) simp
  ultimately have s2: "reach 2025 \<lparr>currentStep = 0, showWelcome = False, formData = ?m\<rparr>"
    using reach.change [OF s1, of "''Tipo''" ?m] by simp
  have t: "step_at (steps 2025 ?m) 0 = Some ''Tipo''"
    by (simp add: steps_split step_at_def)
  have "\<not> isNextDisabled 2025 ?m 0"
    by (simp add: isNextDisabled_def t)
  moreover have "goToNextStep 2025 ?m 0 = 1"
    by (simp add: goToNextStep_def steps_split)
  ultimately have s3: "reach 2025 \<lparr>currentStep = 1, showWelcome = False, formData = ?m\<rparr>"
    using reach.advance [OF s2] t by simp
  have "step_at (steps 2025 ?m) 1 = Some ''AreaUtil''"
    by (simp add: steps_split step_at_def)
  moreover have "renderStep ''AreaUtil'' ?m (?m\<lparr>livingArea := ''150''\<rparr>)"
    using number_input_150 by (rule renderStep.AreaUtil)
  ultimately have s4: "reach 2025 \<lparr>currentStep = 1, showWelcome = False, formData = ?u\<rparr>"
    using reach.change [OF s3, of "''AreaUtil''" ?u] by simp
  have a: "step_at (steps 2025 ?u) 1 = Some ''AreaUtil''"
    by (simp add: steps_split step_at_def)
  have "\<not> isNextDisabled 2025 ?u 1"
    by (simp add: isNextDisabled_def a blank Number_150 fle_def feq_def)
  moreover have "goToNextStep 2025 ?u 1 = 2"
    by (simp add: goToNextStep_def steps_split)
  ultimately have s5: "reach 2025 \<lparr>currentStep = 2, showWelcome = False, formData = ?u\<rparr>"
    using reach.advance [OF s4] a by simp
  have "step_at (steps 2025 ?u) 2 = Some ''AreaTotal''"
    by (simp add: steps_split step_at_def)
  moreover have "renderStep ''AreaTotal'' ?u (?u\<lparr>plotArea := ''400''\<rparr>)"
    using number_input_400 by (rule renderStep.AreaTotal)
  ultimately show ?thesis
    using reach.change [OF s5, of "''AreaTotal''" "?u\<lparr>plotArea := ''400''\<rparr>"]
    by (simp add: st_total_area_def)
qed

lemma total_area_fields:
  "currentStep st_total_area = 2" "propertyType (formData st_total_area) = ''Moradia''"
  "livingArea (formData st_total_area) = ''150''" "plotArea (formData st_total_area) = ''400''"
  "yearBuilt (formData st_total_area) = []"
  by (simp_all add: st_total_area_def initialFormData_def)

lemma total_area_step:
  "step_at (steps 2025 (formData st_total_area)) (currentStep st_total_area) = Some ''AreaTotal''"
  by (simp add: steps_split step_at_def total_area_fields)

section \<open>The condition step\<close>

lemma parseInt_19: "parseInt ''19'' = Fin 19"
  by (simp add: str_eval num_eval)

lemma age_2006: "fsub (Fin 2025) (Fin 19) = Fin 2006"
  by (simp add: num_eval)

lemma Number_1995: "Number ''1995'' = Fin 1995"
  by (simp add: str_eval num_eval)

text \<open>
  Claim C3, as amended. For every answer set whose construction-year field is blank or is
  read as the same number by \<open>parseInt\<close> (which \<open>steps\<close> uses) and by \<open>Number\<close> (which
  the validity of the year step uses), the step \<open>Conservacao\<close> is in the derived sequence
  if and only if the field is not blank, is a number, and the current year minus that
  number is above 15. Whenever the step is in the sequence, it stands immediately before
  the energy-class step, and nowhere else. A field of exactly four digits is read alike
  by both, so that for such a field the step is there if and only if the current year
  minus the year is above 15.
\<close>

theorem C3_condition_step:
  "(trim (yearBuilt fd) = [] \<or> parseInt (yearBuilt fd) = Number (yearBuilt fd) \<longrightarrow>
     (''Conservacao'' \<in> set (steps cy fd)) =
       (trim (yearBuilt fd) \<noteq> [] \<and> Number (yearBuilt fd) \<noteq> NaN
        \<and> fgt (fsub (Fin (of_int cy)) (Number (yearBuilt fd))) (Fin 15))) \<and>
   (''Conservacao'' \<in> set (steps cy fd) \<longrightarrow>
     (\<exists>pre post. steps cy fd = pre @ [''Conservacao'', ''ClasseEnergetica''] @ post
        \<and> ''Conservacao'' \<notin> set pre \<and> ''Conservacao'' \<notin> set post)) \<and>
   (length (yearBuilt fd) = 4 \<and> list_all is_digit (yearBuilt fd) \<longrightarrow>
     (''Conservacao'' \<in> set (steps cy fd)) =
       fgt (fsub (Fin (of_int cy)) (Number (yearBuilt fd))) (Fin 15))"
proof -
  define pre where "pre =
     [''Tipo'', ''AreaUtil'']
        @ (if propertyType fd = ''Moradia'' then [''AreaTotal'']
           else if propertyType fd = ''Apartamento'' then [''Floor''] else [])
        @ [''Tipologia'', ''Ano'']"
  define post where "post =
     (if propertyType fd = ''Moradia'' then [''Piscina'', ''Jardim'']
      else if propertyType fd = ''Apartamento'' then [''Elevador'', ''Varanda'', ''Garagem'']
      else [])
     @ [''Localizacao'', ''Contacto'', ''Resultado'']"
  define c where "c \<longleftrightarrow> parseInt (yearBuilt fd) \<noteq> NaN
      \<and> fgt (fsub (Fin (of_int cy)) (parseInt (yearBuilt fd))) (Fin 15)"
  define n where "n \<longleftrightarrow> trim (yearBuilt fd) \<noteq> [] \<and> Number (yearBuilt fd) \<noteq> NaN
      \<and> fgt (fsub (Fin (of_int cy)) (Number (yearBuilt fd))) (Fin 15)"
  have st: "steps cy fd = pre @ (if c then [''Conservacao''] else []) @ [''ClasseEnergetica''] @ post"
    unfolding pre_def post_def c_def by (rule steps_split)
  have npre: "''Conservacao'' \<notin> set pre" by (simp add: pre_def)
  have npost: "''Conservacao'' \<notin> set post" by (simp add: post_def)
  have mem: "(''Conservacao'' \<in> set (steps cy fd)) = c"
    using npre npost by (simp add: st)
  have "c \<longrightarrow> steps cy fd = pre @ [''Conservacao'', ''ClasseEnergetica''] @ post"
    by (simp add: st)
  with npre npost mem have place:
    "''Conservacao'' \<in> set (steps cy fd) \<longrightarrow>
      (\<exists>pre post. steps cy fd = pre @ [''Conservacao'', ''ClasseEnergetica''] @ post
        \<and> ''Conservacao'' \<notin> set pre \<and> ''Conservacao'' \<notin> set post)"
    by blast
  have blank: "trim (yearBuilt fd) = [] \<longrightarrow> c = n"
  proof
    assume b: "trim (yearBuilt fd) = []"
    then have "parseInt (yearBuilt fd) = NaN" by (rule trim_empty_parseInt)
    then show "c = n" using b by (simp add: c_def n_def)
  qed
  have agree: "parseInt (yearBuilt fd) = Number (yearBuilt fd) \<longrightarrow> c = n"
  proof
    assume e: "parseInt (yearBuilt fd) = Number (yearBuilt fd)"
    have "Number (yearBuilt fd) \<noteq> NaN \<longrightarrow> trim (yearBuilt fd) \<noteq> []"
      using trim_empty_parseInt[of "yearBuilt fd"] e by auto
    then show "c = n" using e unfolding c_def n_def by auto
  qed
  have four: "length (yearBuilt fd) = 4 \<and> list_all is_digit (yearBuilt fd) \<longrightarrow>
      c = fgt (fsub (Fin (of_int cy)) (Number (yearBuilt fd))) (Fin 15)"
  proof
    assume d: "length (yearBuilt fd) = 4 \<and> list_all is_digit (yearBuilt fd)"
    then have ne: "yearBuilt fd \<noteq> []" by auto
    have e: "parseInt (yearBuilt fd) = Number (yearBuilt fd)"
      using ne d by (simp add: digits_parse_agree)
    have "Number (yearBuilt fd) \<noteq> NaN"
      using ne d by (simp add: digits_Number double_of_not_NaN)
    then show "c = fgt (fsub (Fin (of_int cy)) (Number (yearBuilt fd))) (Fin 15)"
      using e by (simp add: c_def)
  qed
  from mem place blank agree four show ?thesis unfolding n_def by blast
qed

text \<open>
  The theorem at the house built in 1995, seen in 2025, and at the empty form, whose
  year field is blank.
\<close>

theorem C3_condition_step_witness:
  "length (yearBuilt fd_house) = 4 \<and> list_all is_digit (yearBuilt fd_house) \<and>
   parseInt (yearBuilt fd_house) = Number (yearBuilt fd_house) \<and>
   fgt (fsub (Fin (of_int 2025)) (Number (yearBuilt fd_house))) (Fin 15) \<and>
   ''Conservacao'' \<in> set (steps 2025 fd_house) \<and>
   (\<exists>pre post. steps 2025 fd_house = pre @ [''Conservacao'', ''ClasseEnergetica''] @ post
      \<and> ''Conservacao'' \<notin> set pre \<and> ''Conservacao'' \<notin> set post) \<and>
   trim (yearBuilt initialFormData) = [] \<and>
   ''Conservacao'' \<notin> set (steps 2025 initialFormData)"
proof -
  have d: "length (yearBuilt fd_house) = 4 \<and> list_all is_digit (yearBuilt fd_house)"
    by (simp add: house_fields is_digit_def code_def)
  have e: "parseInt (yearBuilt fd_house) = Number (yearBuilt fd_house)"
    by (simp add: house_fields parseInt_1995 Number_1995)
  have a: "fgt (fsub (Fin (of_int 2025)) (Number (yearBuilt fd_house))) (Fin 15)"
    by (simp add: house_fields Number_1995 age_30 fgt_def)
  have b: "trim (yearBuilt initialFormData) = []"
    by (simp add: initialFormData_def trim_def)
  from d e a b show ?thesis
    using C3_condition_step [of fd_house 2025] C3_condition_step [of initialFormData 2025]
    by blast
qed

text \<open>
  Claim C3 as stated asks for a four-digit year. While the field holds \<open>19\<close>, the step
  is in the sequence.
\<close>

theorem C3_counterexample:
  "parseInt (yearBuilt fd_year19) = Fin 19 \<and>
   ''Conservacao'' \<in> set (steps 2025 fd_year19) \<and>
   \<not> (length (yearBuilt fd_year19) = 4 \<and> list_all is_digit (yearBuilt fd_year19))"
proof -
  have y: "yearBuilt fd_year19 = ''19''"
    by (simp add: fd_year19_def initialFormData_def)
  have "''Conservacao'' \<in> set (steps 2025 fd_year19)"
    by (simp add: steps_split y parseInt_19 age_2006 fgt_def)
  then show ?thesis by (simp add: y parseInt_19)
qed

section \<open>The validity of the total-area step\<close>

lemma isNextDisabled_AreaTotal:
  assumes "step_at (steps cy fd) i = Some ''AreaTotal''"
  shows "isNextDisabled cy fd i =
     (trim (plotArea fd) = [] \<or> fle (Number (plotArea fd)) (Fin 0)
      \<or> fle (Number (plotArea fd)) (Number (livingArea fd)))"
  using assms by (simp add: isNextDisabled_def Let_def)

lemma fle_zero_iff_not_fgt:
  assumes "a \<noteq> NaN"
  shows "(\<not> fle a (Fin 0)) = fgt a (Fin 0)"
  using assms by (rule not_fle_iff_fgt) simp

text \<open>
  Claim C4. Advancing from the total-area step is permitted if and only if the plot-area
  field is not blank, its value is above 0 and its value is above that of the living
  area. This holds for every answer set whose plot-area and living-area fields have a
  numeric value (\<open>Number\<close> does not give \<open>NaN\<close>; the empty string counts as 0), and so
  for every state the wizard can reach: the two fields are written only by inputs of type
  \<open>number\<close>, which deliver the empty string or numeric text.
\<close>

theorem C4_total_area_valid:
  "(step_at (steps cy fd) i = Some ''AreaTotal'' \<and>
    Number (plotArea fd) \<noteq> NaN \<and> Number (livingArea fd) \<noteq> NaN \<longrightarrow>
      (\<not> isNextDisabled cy fd i) =
        (trim (plotArea fd) \<noteq> [] \<and> fgt (Number (plotArea fd)) (Fin 0)
         \<and> fgt (Number (plotArea fd)) (Number (livingArea fd)))) \<and>
   (reach cy st \<and>
    step_at (steps cy (formData st)) (currentStep st) = Some ''AreaTotal'' \<longrightarrow>
      (\<not> isNextDisabled cy (formData st) (currentStep st)) =
        (trim (plotArea (formData st)) \<noteq> []
         \<and> fgt (Number (plotArea (formData st))) (Fin 0)
         \<and> fgt (Number (plotArea (formData st))) (Number (livingArea (formData st)))))"
proof -
  have gen: "(\<not> isNextDisabled cy fd i) =
        (trim (plotArea fd) \<noteq> [] \<and> fgt (Number (plotArea fd)) (Fin 0)
         \<and> fgt (Number (plotArea fd)) (Number (livingArea fd)))"
    if s: "step_at (steps cy fd) i = Some ''AreaTotal''"
      and p: "Number (plotArea fd) \<noteq> NaN" and l: "Number (livingArea fd) \<noteq> NaN"
    for fd i
  proof -
    have a: "(\<not> fle (Number (plotArea fd)) (Fin 0)) = fgt (Number (plotArea fd)) (Fin 0)"
      using p by (rule fle_zero_iff_not_fgt)
    have b: "(\<not> fle (Number (plotArea fd)) (Number (livingArea fd)))
        = fgt (Number (plotArea fd)) (Number (livingArea fd))"
      using p l by (rule not_fle_iff_fgt)
    show ?thesis
      using a b by (simp add: isNextDisabled_AreaTotal [OF s])
  qed
  have "(\<not> isNextDisabled cy (formData st) (currentStep st)) =
        (trim (plotArea (formData st)) \<noteq> []
         \<and> fgt (Number (plotArea (formData st))) (Fin 0)
         \<and> fgt (Number (plotArea (formData st))) (Number (livingArea (formData st))))"
    if r: "reach cy st"
      and s: "step_at (steps cy (formData st)) (currentStep st) = Some ''AreaTotal''"
  proof -
    have "Number (plotArea (formData st)) \<noteq> NaN" "Number (livingArea (formData st)) \<noteq> NaN"
      using reach_number_fields [OF r] by (simp_all add: number_input_numeric)
    with s show ?thesis by (rule gen)
  qed
  with gen show ?thesis by blast
qed

lemma house_step_2: "step_at (steps 2025 fd_house) 2 = Some ''AreaTotal''"
  by (simp add: steps_split step_at_def house_fields)

text \<open>
  The theorem at the house with a plot of 400 and a living area of 150, and at the state
  reached by entering these two areas.
\<close>

theorem C4_total_area_valid_witness:
  "step_at (steps 2025 fd_house) 2 = Some ''AreaTotal'' \<and>
   Number (plotArea fd_house) \<noteq> NaN \<and> Number (livingArea fd_house) \<noteq> NaN \<and>
   \<not> isNextDisabled 2025 fd_house 2 \<and>
   reach 2025 st_total_area \<and>
   step_at (steps 2025 (formData st_total_area)) (currentStep st_total_area)
     = Some ''AreaTotal'' \<and>
   \<not> isNextDisabled 2025 (formData st_total_area) (currentStep st_total_area)"
proof -
  have p: "Number (plotArea fd_house) \<noteq> NaN" by (simp add: house_fields Number_400)
  have l: "Number (livingArea fd_house) \<noteq> NaN" by (simp add: house_fields Number_150)
  have v: "trim (plotArea fd_house) \<noteq> [] \<and> fgt (Number (plotArea fd_house)) (Fin 0)
      \<and> fgt (Number (plotArea fd_house)) (Number (livingArea fd_house))"
    by (simp add: house_fields Number_400 Number_150 fgt_def trim_def is_ws_def code_def)
  have w: "trim (plotArea (formData st_total_area)) \<noteq> []
      \<and> fgt (Number (plotArea (formData st_total_area))) (Fin 0)
      \<and> fgt (Number (plotArea (formData st_total_area)))
          (Number (livingArea (formData st_total_area)))"
    by (simp add: total_area_fields Number_400 Number_150 fgt_def trim_def is_ws_def code_def)
  from p l v w house_step_2 reach_total_area total_area_step show ?thesis
    using C4_total_area_valid [of 2025 fd_house 2 st_total_area] by blast
qed

section \<open>The result of the valuation\<close>

lemma parseFloat_1e308:
  "parseFloat ''1e308'' =
     Fin 100000000000000001097906362944045541740492309677311846336810682903157585404911491537163328978494688899061249669721172515611590283743140088328307009198146046031271664502933027185697489699588559043338384466165001178426897626212945177628091195786707458122783970171784415105291802893207873272974885715430223118336"
  by (simp add: str_eval num_eval)

lemma huge_product:
  "fmul (fmul (Fin 100000000000000001097906362944045541740492309677311846336810682903157585404911491537163328978494688899061249669721172515611590283743140088328307009198146046031271664502933027185697489699588559043338384466165001178426897626212945177628091195786707458122783970171784415105291802893207873272974885715430223118336)
     (double_of (125 / 100))) (Fin 1500) = PosInf"
  by (simp add: num_eval)

lemma parseInt_empty: "parseInt [] = NaN"
  by (simp add: str_eval)

lemma huge_totalAdj: "totalAdj 2025 fd_huge = Fin 0"
  by (simp add: totalAdj_def adj_eval fd_huge_def initialFormData_def parseInt_empty
      toUpperCase_def startsWith_def isNaN_def double_of_0)

text \<open>
  Claim C6, as amended. For every answer set the valuation returns \<open>Math.round\<close> of the
  formula result when the property kind is apartment or house, which is an integer
  exactly when the formula result is finite (an infinity or \<open>NaN\<close> is returned as it is),
  and returns 0 when the property kind is neither.
\<close>

theorem C6_rounded_or_zero:
  "(propertyType fd = ''Apartamento'' \<longrightarrow>
      calculatePropertyValue tbl cy fd =
        Math_round (fmul (fmul (fmul (areaUtil fd) (double_of (125 / 100)))
          (getPricePerSquareMeter tbl (municipality fd))) (fadd (Fin 1) (totalAdj cy fd))) \<and>
      is_integer (calculatePropertyValue tbl cy fd) =
        is_finite (fmul (fmul (fmul (areaUtil fd) (double_of (125 / 100)))
          (getPricePerSquareMeter tbl (municipality fd))) (fadd (Fin 1) (totalAdj cy fd)))) \<and>
   (propertyType fd = ''Moradia'' \<longrightarrow>
      calculatePropertyValue tbl cy fd =
        Math_round (fmul (fmul (baseArea fd) (getPricePerSquareMeter tbl (municipality fd)))
          (factors cy fd)) \<and>
      is_integer (calculatePropertyValue tbl cy fd) =
        is_finite (fmul (fmul (baseArea fd) (getPricePerSquareMeter tbl (municipality fd)))
          (factors cy fd))) \<and>
   (propertyType fd \<noteq> ''Apartamento'' \<and> propertyType fd \<noteq> ''Moradia'' \<longrightarrow>
      calculatePropertyValue tbl cy fd = Fin 0)"
proof (intro conjI impI)
  assume a: "propertyType fd = ''Apartamento''"
  show v: "calculatePropertyValue tbl cy fd =
        Math_round (fmul (fmul (fmul (areaUtil fd) (double_of (125 / 100)))
          (getPricePerSquareMeter tbl (municipality fd))) (fadd (Fin 1) (totalAdj cy fd)))"
    using a by (simp add: calculatePropertyValue_def Let_def)
  show "is_integer (calculatePropertyValue tbl cy fd) =
        is_finite (fmul (fmul (fmul (areaUtil fd) (double_of (125 / 100)))
          (getPricePerSquareMeter tbl (municipality fd))) (fadd (Fin 1) (totalAdj cy fd)))"
    by (simp only: v is_integer_Math_round)
next
  assume m: "propertyType fd = ''Moradia''"
  show v: "calculatePropertyValue tbl cy fd =
        Math_round (fmul (fmul (baseArea fd) (getPricePerSquareMeter tbl (municipality fd)))
          (factors cy fd))"
    using m by (simp add: calculatePropertyValue_def Let_def)
  show "is_integer (calculatePropertyValue tbl cy fd) =
        is_finite (fmul (fmul (baseArea fd) (getPricePerSquareMeter tbl (municipality fd)))
          (factors cy fd))"
    by (simp only: v is_integer_Math_round)
next
  assume "propertyType fd \<noteq> ''Apartamento'' \<and> propertyType fd \<noteq> ''Moradia''"
  then show "calculatePropertyValue tbl cy fd = Fin 0"
    by (simp add: calculatePropertyValue_def Let_def)
qed

text \<open>
  The theorem at the apartment of the scenario, at the house of the scenario and at the
  empty form.
\<close>

theorem C6_rounded_or_zero_witness:
  "propertyType fd_apartment = ''Apartamento'' \<and>
   is_integer (calculatePropertyValue prices_2000 2025 fd_apartment) =
     is_finite (fmul (fmul (fmul (areaUtil fd_apartment) (double_of (125 / 100)))
       (getPricePerSquareMeter prices_2000 (municipality fd_apartment)))
       (fadd (Fin 1) (totalAdj 2025 fd_apartment))) \<and>
   propertyType fd_house = ''Moradia'' \<and>
   is_integer (calculatePropertyValue prices_1800 2025 fd_house) =
     is_finite (fmul (fmul (baseArea fd_house)
       (getPricePerSquareMeter prices_1800 (municipality fd_house))) (factors 2025 fd_house)) \<and>
   propertyType initialFormData \<noteq> ''Apartamento'' \<and>
   propertyType initialFormData \<noteq> ''Moradia'' \<and>
   calculatePropertyValue Map.empty 2025 initialFormData = Fin 0"
proof -
  have i: "propertyType initialFormData \<noteq> ''Apartamento''"
    "propertyType initialFormData \<noteq> ''Moradia''"
    by (simp_all add: initialFormData_def)
  show ?thesis
    using C6_rounded_or_zero [of fd_apartment prices_2000 2025]
      C6_rounded_or_zero [of fd_house prices_1800 2025]
      C6_rounded_or_zero [of initialFormData Map.empty 2025]
      apartment_fields(1) house_fields(1) i
    by blast
qed

text \<open>
  Claim C6 as stated promises an integer for every apartment. With a living area of
  \<open>1e308\<close> and the default price the product overflows, and the valuation returns
  \<open>Infinity\<close>.
\<close>

theorem C6_counterexample:
  "propertyType fd_huge = ''Apartamento'' \<and>
   calculatePropertyValue Map.empty 2025 fd_huge = PosInf \<and>
   \<not> is_integer (calculatePropertyValue Map.empty 2025 fd_huge)"
proof -
  have f: "propertyType fd_huge = ''Apartamento''" "livingArea fd_huge = ''1e308''"
    "municipality fd_huge = []"
    by (simp_all add: fd_huge_def initialFormData_def)
  have "areaUtil fd_huge = parseFloat ''1e308''"
    by (simp add: areaUtil_def f(2) parseFloat_1e308 num_or_def)
  then have b: "fmul (fmul (areaUtil fd_huge) (double_of (125 / 100)))
      (getPricePerSquareMeter Map.empty (municipality fd_huge)) = PosInf"
    using huge_product by (simp add: parseFloat_1e308 getPricePerSquareMeter_def)
  have o: "fadd (Fin 1) (totalAdj 2025 fd_huge) = Fin 1"
    by (simp add: huge_totalAdj double_of_1)
  have "calculatePropertyValue Map.empty 2025 fd_huge = Math_round (fmul PosInf (Fin 1))"
    using b o f(1) by (simp add: calculatePropertyValue_def Let_def)
  then have v: "calculatePropertyValue Map.empty 2025 fd_huge = PosInf"
    by simp
  then show ?thesis using f(1) by simp
qed

section \<open>The location fields\<close>

text \<open>
  Claim C7. For every form state, changing the district sets the district to the new
  value and clears the municipality and the parish, and changing the municipality sets it
  to the new value and clears the parish; every other field keeps its value.
\<close>

theorem C7_location_cascade:
  "district (handleDistrictChange v fd) = v \<and>
   municipality (handleDistrictChange v fd) = [] \<and>
   parish (handleDistrictChange v fd) = [] \<and>
   propertyType (handleDistrictChange v fd) = propertyType fd \<and>
   livingArea (handleDistrictChange v fd) = livingArea fd \<and>
   plotArea (handleDistrictChange v fd) = plotArea fd \<and>
   floor' (handleDistrictChange v fd) = floor' fd \<and>
   propertyConfig (handleDistrictChange v fd) = propertyConfig fd \<and>
   yearBuilt (handleDistrictChange v fd) = yearBuilt fd \<and>
   conservationState (handleDistrictChange v fd) = conservationState fd \<and>
   energyClass (handleDistrictChange v fd) = energyClass fd \<and>
   elevator (handleDistrictChange v fd) = elevator fd \<and>
   balcony (handleDistrictChange v fd) = balcony fd \<and>
   garage (handleDistrictChange v fd) = garage fd \<and>
   pool (handleDistrictChange v fd) = pool fd \<and>
   garden (handleDistrictChange v fd) = garden fd \<and>
   streetAddress (handleDistrictChange v fd) = streetAddress fd \<and>
   phone (handleDistrictChange v fd) = phone fd \<and>
   acceptsContact (handleDistrictChange v fd) = acceptsContact fd \<and>
   wantsProfessionalEvaluation (handleDistrictChange v fd) = wantsProfessionalEvaluation fd \<and>
   municipality (handleMunicipalityChange v fd) = v \<and>
   parish (handleMunicipalityChange v fd) = [] \<and>
   district (handleMunicipalityChange v fd) = district fd \<and>
   propertyType (handleMunicipalityChange v fd) = propertyType fd \<and>
   livingArea (handleMunicipalityChange v fd) = livingArea fd \<and>
   plotArea (handleMunicipalityChange v fd) = plotArea fd \<and>
   floor' (handleMunicipalityChange v fd) = floor' fd \<and>
   propertyConfig (handleMunicipalityChange v fd) = propertyConfig fd \<and>
   yearBuilt (handleMunicipalityChange v fd) = yearBuilt fd \<and>
   conservationState (handleMunicipalityChange v fd) = conservationState fd \<and>
   energyClass (handleMunicipalityChange v fd) = energyClass fd \<and>
   elevator (handleMunicipalityChange v fd) = elevator fd \<and>
   balcony (handleMunicipalityChange v fd) = balcony fd \<and>
   garage (handleMunicipalityChange v fd) = garage fd \<and>
   pool (handleMunicipalityChange v fd) = pool fd \<and>
   garden (handleMunicipalityChange v fd) = garden fd \<and>
   streetAddress (handleMunicipalityChange v fd) = streetAddress fd \<and>
   phone (handleMunicipalityChange v fd) = phone fd \<and>
   acceptsContact (handleMunicipalityChange v fd) = acceptsContact fd \<and>
   wantsProfessionalEvaluation (handleMunicipalityChange v fd) = wantsProfessionalEvaluation fd"
  unfolding handleDistrictChange_def handleMunicipalityChange_def by simp

section \<open>Navigation\<close>

text \<open>
  Claim C8. With \<open>n\<close> the length of the derived step sequence, advancing maps the index
  \<open>i\<close> to \<open>min (i + 1) (n - 1)\<close> and retreating maps it to \<open>max (i - 1) 0\<close>; advancing
  from the last index \<open>n - 1\<close> and retreating from index 0 change nothing.
\<close>

theorem C8_navigation_clamped:
  "goToNextStep cy fd i = min (i + 1) (int (length (steps cy fd)) - 1) \<and>
   goToPreviousStep i = max (i - 1) 0 \<and>
   goToNextStep cy fd (int (length (steps cy fd)) - 1) = int (length (steps cy fd)) - 1 \<and>
   goToPreviousStep 0 = 0"
proof -
  have "goToNextStep cy fd i = min (i + 1) (int (length (steps cy fd)) - 1)"
    by (simp only: goToNextStep_def)
  moreover have "goToPreviousStep i = max (i - 1) 0"
    by (simp only: goToPreviousStep_def)
  moreover have "goToNextStep cy fd (int (length (steps cy fd)) - 1)
      = int (length (steps cy fd)) - 1"
    unfolding goToNextStep_def by linarith
  moreover have "goToPreviousStep 0 = 0"
    by (simp add: goToPreviousStep_def)
  ultimately show ?thesis by blast
qed

section \<open>The apartment formula and the fields of a house\<close>

text \<open>
  Claim C9. Two answer sets of an apartment that agree on every field other than the plot
  area, the pool and the garden have the same estimated value: replacing these three
  fields in an answer set of an apartment does not change the valuation.
\<close>

theorem C9_apartment_ignores_house_fields:
  assumes "propertyType fd = ''Apartamento''"
  shows "calculatePropertyValue tbl cy (fd\<lparr>plotArea := p, pool := q, garden := g\<rparr>)
           = calculatePropertyValue tbl cy fd"
proof -
  let ?fd' = "fd\<lparr>plotArea := p, pool := q, garden := g\<rparr>"
  have "areaUtil ?fd' = areaUtil fd" by (simp add: areaUtil_def)
  moreover have "totalAdj cy ?fd' = totalAdj cy fd" by (simp add: totalAdj_def)
  ultimately show ?thesis using assms by (simp add: calculatePropertyValue_def)
qed

text \<open>The theorem at the apartment of the scenario, given a plot, a pool and a garden.\<close>

theorem C9_apartment_ignores_house_fields_witness:
  "propertyType fd_apartment = ''Apartamento'' \<and>
   calculatePropertyValue prices_2000 2025
       (fd_apartment\<lparr>plotArea := ''400'', pool := ''Sim'', garden := ''Sim''\<rparr>)
     = calculatePropertyValue prices_2000 2025 fd_apartment"
  using C9_apartment_ignores_house_fields [OF apartment_fields(1)] apartment_fields(1)
  by blast

section \<open>An index outside the step sequence\<close>

text \<open>
  Claim C10, as amended. For every form state and every current index at or beyond the
  length of the derived step sequence, the name of the step is undefined, the validity
  check takes its default branch, and advancing is reported as permitted whatever the
  form holds. No state the wizard can reach has such an index: the index stays within
  the bounds of the sequence derived from the current form, since the property kind is
  written only at index 0 and the construction year only at the year step.
\<close>

theorem C10_out_of_range_permitted:
  "(int (length (steps cy fd)) \<le> i \<longrightarrow>
      step_at (steps cy fd) i = None \<and> \<not> isNextDisabled cy fd i) \<and>
   (reach cy st \<longrightarrow>
      0 \<le> currentStep st \<and> currentStep st < int (length (steps cy (formData st))))"
proof (intro conjI impI)
  assume "int (length (steps cy fd)) \<le> i"
  then show n: "step_at (steps cy fd) i = None"
    by (simp add: step_at_def)
  show "\<not> isNextDisabled cy fd i"
    by (simp add: isNextDisabled_def n)
next
  assume r: "reach cy st"
  show "0 \<le> currentStep st"
    using reach_in_range [OF r] by blast
  show "currentStep st < int (length (steps cy (formData st)))"
    using reach_in_range [OF r] by blast
qed

text \<open>
  The theorem at the empty form, whose sequence has 8 steps, with index 8, and at the
  state that shows the total-area step.
\<close>

theorem C10_out_of_range_permitted_witness:
  "int (length (steps 2025 initialFormData)) \<le> 8 \<and>
   \<not> isNextDisabled 2025 initialFormData 8 \<and>
   reach 2025 st_total_area \<and>
   0 \<le> currentStep st_total_area \<and>
   currentStep st_total_area < int (length (steps 2025 (formData st_total_area)))"
proof -
  have "int (length (steps 2025 initialFormData)) \<le> 8"
    by (simp add: steps_split initialFormData_def parseInt_empty)
  then show ?thesis
    using C10_out_of_range_permitted [of 2025 initialFormData 8 st_total_area]
      reach_total_area
    by blast
qed

text \<open>
  Claim C10 as stated says that an index at or beyond the length can happen when a
  change of the property kind shortens the sequence. No reachable state has one.
\<close>

theorem C10_counterexample:
  "\<not> (\<exists>cy st. reach cy st \<and> int (length (steps cy (formData st))) \<le> currentStep st)"
proof
  assume "\<exists>cy st. reach cy st \<and> int (length (steps cy (formData st))) \<le> currentStep st"
  then obtain cy st where "reach cy st"
    and "int (length (steps cy (formData st))) \<le> currentStep st"
    by blast
  then show False using reach_in_range [of cy st] by linarith
qed

end
